theory Spec2Isabelle
  imports Complex_Main
begin

section \<open>Steam-table calculator: the view functions of steam\_calc/views.py\<close>

text \<open>
  The repository is glue code around the external IAPWS-97 library. The library is not
  part of the repository, so the property engine is a parameter of every definition
  below: a function from a query (the two keyword arguments of \<open>IAPWS97(...)\<close>) to
  either the exception it raises or the state object it builds.

  Python floats are modelled as reals: rounding error, infinities and NaN are outside
  the model. Everything else the code does is written out: exceptions are values of a
  sum type, the sequence of engine calls is threaded through as a list (the trace), and
  the template context is a map from keys to Python values.
\<close>

subsection \<open>Python values, exceptions, the property engine\<close>

datatype pyval =
    PNone
  | PBool bool
  | PInt int
  | PFloat real
  | PStr string
  | PList "pyval list"
  | PDict "(string \<times> pyval) list"
  | PJson pyval

datatype exn =
    NotImplementedError string
  | ValueError string
  | TypeError
  | UnboundLocalError
  | AttributeError
  | ZeroDivisionError
  | OtherError string

datatype query =
    Q_PT real real
  | Q_Px real real
  | Q_Ps real real
  | Q_Ph real real
  | Q_Tx real real

record steam =
  st_P :: real
  st_T :: real
  st_h :: real
  st_s :: real
  st_v :: real
  st_x :: "real option"
  st_phase :: string

type_synonym engine = "query \<Rightarrow> exn + steam"

text \<open>
  The two library functions the views call: the constructor \<open>IAPWS97(**kwargs)\<close> and
  the builtin \<open>float\<close> applied to a string (\<open>Inl msg\<close> is \<open>ValueError(msg)\<close>).
  \<open>py_float\<close> is \<open>float\<close> on text that denotes a finite number. Python's \<open>float\<close>
  also accepts the spellings \<open>nan\<close>, \<open>inf\<close> and \<open>infinity\<close>; their values are not
  reals, so a form field spelled that way is outside this model, and every statement
  below about parsed inputs is a statement about finite numbers.
\<close>

record lib =
  IAPWS97 :: engine
  py_float :: "string \<Rightarrow> string + real"

record request =
  http_method :: string
  POST :: "string \<rightharpoonup> string"

type_synonym ctx = "string \<rightharpoonup> pyval"

text \<open>The table of models.py: one row per \<open>SteamQueryLog\<close> object.\<close>

record SteamQueryLog =
  pressure :: real
  temperature :: real
  timestamp :: nat
  is_valid :: bool

subsection \<open>Builtins\<close>

text \<open>\<open>round(x, n)\<close> on a float: to n decimals, ties to even.\<close>

definition round_half_even :: "real \<Rightarrow> int" where
  "round_half_even y =
     (let f = \<lfloor>y\<rfloor>; d = y - of_int f in
      if d < 1 / 2 then f
      else if 1 / 2 < d then f + 1
      else if even f then f else f + 1)"

definition py_round :: "real \<Rightarrow> nat \<Rightarrow> real" where
  "py_round x n = of_int (round_half_even (x * 10 ^ n)) / 10 ^ n"

text \<open>\<open>round\<close> on a number that is an int or a float: an int is returned unchanged.\<close>

definition py_round_num :: "pyval \<Rightarrow> nat \<Rightarrow> pyval" where
  "py_round_num a n = (case a of PFloat x \<Rightarrow> PFloat (py_round x n) | other \<Rightarrow> other)"

text \<open>\<open>str.lower\<close> on ASCII text, and the substring test \<open>a in b\<close>.\<close>

definition lower_char :: "char \<Rightarrow> char" where
  "lower_char c =
     (let n = (of_char c :: nat) in if 65 \<le> n \<and> n \<le> 90 then char_of (n + 32) else c)"

definition py_lower :: "string \<Rightarrow> string" where
  "py_lower = map lower_char"

fun starts_with :: "string \<Rightarrow> string \<Rightarrow> bool" where
  "starts_with [] s = True"
| "starts_with (a # as) [] = False"
| "starts_with (a # as) (c # cs) = (a = c \<and> starts_with as cs)"

fun py_in :: "string \<Rightarrow> string \<Rightarrow> bool" where
  "py_in a [] = starts_with a []"
| "py_in a (c # cs) = (starts_with a (c # cs) \<or> py_in a cs)"

text \<open>
  \<open>float(request.POST.get(key))\<close>: a missing field is \<open>float(None)\<close>, a TypeError.
  \<open>float(request.POST.get(key, default))\<close>: a missing field is the default.
\<close>

definition float_field :: "lib \<Rightarrow> string option \<Rightarrow> exn + real" where
  "float_field l field =
     (case field of
        None \<Rightarrow> Inl TypeError
      | Some txt \<Rightarrow> (case py_float l txt of Inl msg \<Rightarrow> Inl (ValueError msg) | Inr r \<Rightarrow> Inr r))"

definition float_field_default :: "lib \<Rightarrow> string option \<Rightarrow> real \<Rightarrow> exn + real" where
  "float_field_default l field dflt =
     (case field of
        None \<Rightarrow> Inr dflt
      | Some txt \<Rightarrow> (case py_float l txt of Inl msg \<Rightarrow> Inl (ValueError msg) | Inr r \<Rightarrow> Inr r))"

text \<open>
  A computation that may raise, with the engine calls it made: the result or the
  exception, and the trace.
\<close>

type_synonym 'a comp = "(exn + 'a) \<times> query list"

definition py_return :: "'a \<Rightarrow> 'a comp" where
  "py_return a = (Inr a, [])"

definition py_raise :: "exn \<Rightarrow> 'a comp" where
  "py_raise e = (Inl e, [])"

definition no_call :: "exn + 'a \<Rightarrow> 'a comp" where
  "no_call r = (r, [])"

definition engine_call :: "lib \<Rightarrow> query \<Rightarrow> steam comp" where
  "engine_call l q = (IAPWS97 l q, [q])"

definition py_bind :: "'a comp \<Rightarrow> ('a \<Rightarrow> 'b comp) \<Rightarrow> 'b comp" where
  "py_bind m f =
     (case m of
        (Inl e, tr) \<Rightarrow> (Inl e, tr)
      | (Inr a, tr) \<Rightarrow> (case f a of (r, tr') \<Rightarrow> (r, tr @ tr')))"

definition get_x :: "steam \<Rightarrow> real comp" where
  "get_x st = (case st_x st of None \<Rightarrow> py_raise AttributeError | Some q \<Rightarrow> py_return q)"

definition py_div :: "real \<Rightarrow> real \<Rightarrow> real comp" where
  "py_div a b = (if b = 0 then py_raise ZeroDivisionError else py_return (a / b))"

subsection \<open>generate\_saturation\_dome\<close>

text \<open>\<open>range(start, stop, step)\<close> for a positive step.\<close>

definition py_range :: "int \<Rightarrow> int \<Rightarrow> int \<Rightarrow> int list" where
  "py_range start stop step =
     map (\<lambda>k. start + step * int k) [0 ..< nat ((stop - start + step - 1) div step)]"

definition dome_point :: "real \<Rightarrow> int \<Rightarrow> pyval" where
  "dome_point sx t_celsius = PDict [(''x'', PFloat sx), (''y'', PInt t_celsius)]"

definition critical_point :: pyval where
  "critical_point = PDict [(''x'', PFloat 4.406), (''y'', PFloat 373.946)]"

definition dome_step ::
  "engine \<Rightarrow> (pyval list \<times> pyval list) \<times> query list \<Rightarrow> int
     \<Rightarrow> (pyval list \<times> pyval list) \<times> query list" where
  "dome_step eng acc t_celsius =
     (case acc of ((liquid_line, vapor_line), tr) \<Rightarrow>
        let t_kelvin = real_of_int t_celsius + 273.15 in
        (case eng (Q_Tx t_kelvin 0) of
           Inl e \<Rightarrow> ((liquid_line, vapor_line), tr @ [Q_Tx t_kelvin 0])
         | Inr sat_liquid \<Rightarrow>
             (case eng (Q_Tx t_kelvin 1) of
                Inl e \<Rightarrow> ((liquid_line, vapor_line), tr @ [Q_Tx t_kelvin 0, Q_Tx t_kelvin 1])
              | Inr sat_vapor \<Rightarrow>
                  ((liquid_line @ [dome_point (st_s sat_liquid) t_celsius],
                    vapor_line @ [dome_point (st_s sat_vapor) t_celsius]),
                   tr @ [Q_Tx t_kelvin 0, Q_Tx t_kelvin 1]))))"

definition generate_saturation_dome :: "engine \<Rightarrow> (pyval list \<times> pyval list) \<times> query list" where
  "generate_saturation_dome eng =
     (case foldl (dome_step eng) (([], []), []) (py_range 0 374 10) of
        ((liquid_line, vapor_line), tr) \<Rightarrow>
          ((liquid_line @ [critical_point], vapor_line @ [critical_point]), tr))"

text \<open>Helpers to state what the sampler returns.\<close>

definition succeeded :: "exn + 'a \<Rightarrow> bool" where
  "succeeded r = (case r of Inl e \<Rightarrow> False | Inr y \<Rightarrow> True)"

definition dome_ok :: "engine \<Rightarrow> int \<Rightarrow> bool" where
  "dome_ok eng t_celsius =
     (succeeded (eng (Q_Tx (real_of_int t_celsius + 273.15) 0)) \<and>
      succeeded (eng (Q_Tx (real_of_int t_celsius + 273.15) 1)))"

definition sat_point :: "engine \<Rightarrow> real \<Rightarrow> int \<Rightarrow> pyval" where
  "sat_point eng q t_celsius =
     dome_point (st_s (projr (eng (Q_Tx (real_of_int t_celsius + 273.15) q)))) t_celsius"

definition dome_calls :: "engine \<Rightarrow> int \<Rightarrow> query list" where
  "dome_calls eng t_celsius =
     Q_Tx (real_of_int t_celsius + 273.15) 0 #
     (if succeeded (eng (Q_Tx (real_of_int t_celsius + 273.15) 0))
      then [Q_Tx (real_of_int t_celsius + 273.15) 1] else [])"

subsection \<open>handle\_state\_point\<close>

definition state_point_error :: "exn \<Rightarrow> string" where
  "state_point_error e =
     (case e of
        NotImplementedError msg \<Rightarrow>
          if py_in ''out of bound'' (py_lower msg)
          then ''The provided temperature and pressure exceed the valid limits of the IAPWS-97 steam tables. Please enter physically realistic values.''
          else ''Thermodynamic error: '' @ msg
      | ValueError msg \<Rightarrow> ''Input Error: '' @ msg
      | other \<Rightarrow> ''An unexpected calculation error occurred. Verify your inputs.'')"

definition intermediate_entry :: "real \<Rightarrow> steam \<Rightarrow> pyval" where
  "intermediate_entry ix int_steam =
     PDict [(''x'', PFloat ix),
            (''h'', PFloat (py_round (st_h int_steam) 2)),
            (''s'', PFloat (py_round (st_s int_steam) 4)),
            (''v'', PFloat (py_round (st_v int_steam) 5))]"

fun intermediate_loop :: "lib \<Rightarrow> real \<Rightarrow> real list \<Rightarrow> pyval list \<Rightarrow> (pyval list) comp" where
  "intermediate_loop l p_mpa [] intermediate_data = py_return intermediate_data"
| "intermediate_loop l p_mpa (ix # ixs) intermediate_data =
     py_bind (engine_call l (Q_Px p_mpa ix)) (\<lambda>int_steam.
       intermediate_loop l p_mpa ixs (intermediate_data @ [intermediate_entry ix int_steam]))"

definition opt_str :: "string option \<Rightarrow> pyval" where
  "opt_str a = (case a of None \<Rightarrow> PNone | Some txt \<Rightarrow> PStr txt)"

text \<open>
  Lines 59 to 71. The \<open>if\<close>/\<open>elif\<close> chain on the pressure unit has no \<open>else\<close>: with
  any other tag \<open>p_mpa\<close> stays unassigned (\<open>None\<close>), and reading it raises
  UnboundLocalError. The temperature has an \<open>else\<close>. A missing form field is the tag
  \<open>None\<close>.
\<close>

definition pressure_to_mpa :: "string option \<Rightarrow> real \<Rightarrow> real option" where
  "pressure_to_mpa p_unit p_val =
     (if p_unit = Some ''bar'' then Some (p_val / 10)
      else if p_unit = Some ''pa'' then Some (p_val / 1000000)
      else if p_unit = Some ''atm'' then Some (p_val * 0.101325)
      else None)"

definition temperature_to_kelvin :: "string option \<Rightarrow> real \<Rightarrow> real" where
  "temperature_to_kelvin t_unit t_val = (if t_unit = Some ''c'' then t_val + 273.15 else t_val)"

text \<open>
  The body of the \<open>try\<close>. The context is updated in place while the body runs, so the
  body returns the context as it stands when it ends or raises.
\<close>

definition state_point_try ::
  "lib \<Rightarrow> string option \<Rightarrow> string option \<Rightarrow> string option \<Rightarrow> string option \<Rightarrow> ctx
     \<Rightarrow> (exn option \<times> ctx) \<times> query list" where
  "state_point_try l p_input t_input p_unit t_unit context =
     (case float_field l p_input of
        Inl e \<Rightarrow> ((Some e, context), [])
      | Inr p_val \<Rightarrow>
     (case float_field l t_input of
        Inl e \<Rightarrow> ((Some e, context), [])
      | Inr t_val \<Rightarrow>
     (let p_mpa = pressure_to_mpa p_unit p_val;
          t_k = temperature_to_kelvin t_unit t_val
      in
     (case p_mpa of
        None \<Rightarrow> ((Some UnboundLocalError, context), [])
      | Some p_mpa \<Rightarrow>
     (case IAPWS97 l (Q_PT p_mpa t_k) of
        Inl e \<Rightarrow> ((Some e, context), [Q_PT p_mpa t_k])
      | Inr steam \<Rightarrow>
     (let context1 = context ++ map_of
            [(''success'', PBool True),
             (''p'', PFloat p_val), (''t'', PFloat t_val),
             (''p_unit'', opt_str p_unit), (''t_unit'', opt_str t_unit),
             (''h'', PFloat (py_round (st_h steam) 2)),
             (''s'', PFloat (py_round (st_s steam) 4)),
             (''v'', PFloat (py_round (st_v steam) 5)),
             (''point_s'', PFloat (st_s steam)),
             (''point_t'', PFloat (t_k - 273.15))]
      in
      if st_phase steam = ''Liquid'' then
        ((None, context1(''state'' \<mapsto> PStr ''Compressed Liquid'', ''x'' \<mapsto> PStr ''0'')),
         [Q_PT p_mpa t_k])
      else if st_phase steam = ''Gas'' then
        ((None, context1(''state'' \<mapsto> PStr ''Superheated Steam'', ''x'' \<mapsto> PStr ''1'')),
         [Q_PT p_mpa t_k])
      else if st_phase steam = ''Two-phase'' then
        (case st_x steam of
           None \<Rightarrow> ((Some AttributeError, context1(''state'' \<mapsto> PStr ''Wet Steam'')),
                     [Q_PT p_mpa t_k])
         | Some x \<Rightarrow>
            (let context2 = context1(''state'' \<mapsto> PStr ''Wet Steam'',
                                     ''x'' \<mapsto> PFloat (py_round x 4))
             in
             (case intermediate_loop l p_mpa [0.2, 0.4, 0.6, 0.8] [] of
                (Inl e, tr) \<Rightarrow> ((Some e, context2), Q_PT p_mpa t_k # tr)
              | (Inr intermediate_data, tr) \<Rightarrow>
                  ((None, context2(''intermediate_data'' \<mapsto> PList intermediate_data)),
                   Q_PT p_mpa t_k # tr))))
      else ((None, context1), [Q_PT p_mpa t_k])))))))"

definition handle_state_point :: "lib \<Rightarrow> request \<Rightarrow> ctx \<Rightarrow> ctx \<times> query list" where
  "handle_state_point l req context =
     (let p_input = POST req ''pressure'';
          t_input = POST req ''temperature'';
          p_unit = POST req ''p_unit'';
          t_unit = POST req ''t_unit''
      in
      case state_point_try l p_input t_input p_unit t_unit context of
        ((None, context'), tr) \<Rightarrow> (context', tr)
      | ((Some e, context'), tr) \<Rightarrow> (context'(''error'' \<mapsto> PStr (state_point_error e)), tr))"

subsection \<open>handle\_rankine\_cycle\<close>

definition rankine_error :: "exn \<Rightarrow> string" where
  "rankine_error e =
     (case e of
        NotImplementedError msg \<Rightarrow>
          if py_in ''out of bound'' (py_lower msg)
          then ''The provided parameters exceed the valid limits of the IAPWS-97 formulations. Please verify that your Boiler Temperature isn'' @ [CHR 0x27] @ ''t impossibly high or low.''
          else ''Thermodynamic error: '' @ msg
      | ValueError msg \<Rightarrow> msg
      | other \<Rightarrow> ''An unexpected error occurred. Please ensure all inputs are valid numbers.'')"

definition physics_violation :: string where
  "physics_violation =
     ''Physics Violation: Boiler pressure must be strictly greater than Condenser pressure.''"

definition invalid_efficiency :: string where
  "invalid_efficiency = ''Efficiencies must be between 1% and 100%.''"

definition cycle_point :: "steam \<Rightarrow> string \<Rightarrow> pyval" where
  "cycle_point st label =
     PDict [(''x'', PFloat (st_s st)), (''y'', PFloat (st_T st - 273.15)), (''label'', PStr label)]"

definition state_entry :: "steam \<Rightarrow> pyval \<Rightarrow> pyval \<Rightarrow> pyval" where
  "state_entry st xv phase =
     PDict [(''p'', PFloat (py_round (st_P st * 10) 3)),
            (''T'', PFloat (py_round (st_T st - 273.15) 2)),
            (''h'', PFloat (py_round (st_h st) 2)),
            (''s'', PFloat (py_round (st_s st) 4)),
            (''x'', xv),
            (''phase'', phase)]"

text \<open>\<open>round(st.x, 4) if hasattr(st, 'x') else 'N/A'\<close>\<close>

definition quality_or_na :: "steam \<Rightarrow> pyval" where
  "quality_or_na st = (case st_x st of Some q \<Rightarrow> PFloat (py_round q 4) | None \<Rightarrow> PStr ''N/A'')"

text \<open>Lines 161 to 220: the cycle parameters and the dictionary passed to \<open>context.update\<close>.\<close>

definition rankine_report ::
  "real \<Rightarrow> real \<Rightarrow> real \<Rightarrow> real \<Rightarrow> real \<Rightarrow> steam \<Rightarrow> steam \<Rightarrow> steam \<Rightarrow> steam
     \<Rightarrow> ((string \<times> pyval) list) comp" where
  "rankine_report p_low p_high t_high pump_eff turbine_eff state1 state2 state3 state4 =
     (let w_pump = st_h state2 - st_h state1;
          q_in = st_h state3 - st_h state2;
          w_turbine = st_h state3 - st_h state4;
          w_net = w_turbine - w_pump;
          efficiency = (if q_in > 0 then PFloat (w_net / q_in * 100) else PInt 0);
          t_high_abs = t_high + 273.15;
          t_low_abs = st_T state1
      in
      py_bind (py_div t_low_abs t_high_abs) (\<lambda>ratio.
      let carnot_eff = (1 - ratio) * 100;
          cycle_points =
            [cycle_point state1 ''State 1'', cycle_point state2 ''State 2'',
             cycle_point state3 ''State 3'', cycle_point state4 ''State 4'',
             cycle_point state1 ''State 1'']
      in
      py_bind (if st_phase state3 = ''Gas'' then py_return (PStr ''1 (sat. vapor)'')
               else py_bind (get_x state3) (\<lambda>q. py_return (PFloat (py_round q 4)))) (\<lambda>x3.
      py_return
        [(''success'', PBool True),
         (''rankine_cycle'', PBool True),
         (''cycle_points'', PJson (PList cycle_points)),
         (''p_low'', PFloat p_low),
         (''p_high'', PFloat p_high),
         (''t_high'', PFloat t_high),
         (''pump_eff'', PFloat (pump_eff * 100)),
         (''turbine_eff'', PFloat (turbine_eff * 100)),
         (''state1'', state_entry state1 (PStr ''0 (sat. liquid)'') (PStr ''Saturated Liquid'')),
         (''state2'', state_entry state2 (quality_or_na state2) (PStr (st_phase state2))),
         (''state3'', state_entry state3 x3 (PStr ''Superheated Steam'')),
         (''state4'', state_entry state4 (quality_or_na state4) (PStr (st_phase state4))),
         (''w_pump'', PFloat (py_round w_pump 2)),
         (''q_in'', PFloat (py_round q_in 2)),
         (''w_turbine'', PFloat (py_round w_turbine 2)),
         (''w_net'', PFloat (py_round w_net 2)),
         (''efficiency'', py_round_num efficiency 2),
         (''carnot_eff'', PFloat (py_round carnot_eff 2))])))"

text \<open>Lines 129 to 159: the two checks, then the six states in the order of the source.\<close>

definition rankine_states ::
  "lib \<Rightarrow> real \<Rightarrow> real \<Rightarrow> real \<Rightarrow> real \<Rightarrow> real \<Rightarrow> ((string \<times> pyval) list) comp" where
  "rankine_states l p_low p_high t_high pump_eff turbine_eff =
     (if p_low \<ge> p_high then py_raise (ValueError physics_violation)
      else if pump_eff \<le> 0 \<or> turbine_eff \<le> 0 \<or> pump_eff > 1 \<or> turbine_eff > 1
        then py_raise (ValueError invalid_efficiency)
      else
        let p_low_mpa = p_low / 10;
            p_high_mpa = p_high / 10;
            t_high_k = t_high + 273.15
        in
        py_bind (engine_call l (Q_Px p_low_mpa 0)) (\<lambda>state1.
        py_bind (engine_call l (Q_Ps p_high_mpa (st_s state1))) (\<lambda>state2s.
        py_bind (py_div (st_h state2s - st_h state1) pump_eff) (\<lambda>dh.
        let h2_actual = st_h state1 + dh in
        py_bind (engine_call l (Q_Ph p_high_mpa h2_actual)) (\<lambda>state2.
        py_bind (engine_call l (Q_PT p_high_mpa t_high_k)) (\<lambda>state3.
        py_bind (engine_call l (Q_Ps p_low_mpa (st_s state3))) (\<lambda>state4s.
        let h4_actual = st_h state3 - (st_h state3 - st_h state4s) * turbine_eff in
        py_bind (engine_call l (Q_Ph p_low_mpa h4_actual)) (\<lambda>state4.
        rankine_report p_low p_high t_high pump_eff turbine_eff
          state1 state2 state3 state4))))))))"

definition rankine_try :: "lib \<Rightarrow> request \<Rightarrow> ((string \<times> pyval) list) comp" where
  "rankine_try l req =
     py_bind (no_call (float_field_default l (POST req ''p_cond'') 0.05)) (\<lambda>p_low.
     py_bind (no_call (float_field_default l (POST req ''p_boiler'') 10)) (\<lambda>p_high.
     py_bind (no_call (float_field_default l (POST req ''t_boiler'') 450)) (\<lambda>t_high.
     py_bind (no_call (float_field_default l (POST req ''pump_eff'') 85)) (\<lambda>pump_pct.
     py_bind (no_call (float_field_default l (POST req ''turbine_eff'') 85)) (\<lambda>turbine_pct.
     rankine_states l p_low p_high t_high (pump_pct / 100) (turbine_pct / 100))))))"

definition handle_rankine_cycle :: "lib \<Rightarrow> request \<Rightarrow> ctx \<Rightarrow> ctx \<times> query list" where
  "handle_rankine_cycle l req context =
     (case rankine_try l req of
        (Inr upd, tr) \<Rightarrow> (context ++ map_of upd, tr)
      | (Inl e, tr) \<Rightarrow> (context(''error'' \<mapsto> PStr (rankine_error e)), tr))"

subsection \<open>steam\_calculator\<close>

text \<open>
  The view: the response is the context handed to the template. views.py does not import
  models.py and has no statement on \<open>SteamQueryLog\<close>, so the table is returned as it was
  received.
\<close>

definition steam_calculator ::
  "lib \<Rightarrow> request \<Rightarrow> SteamQueryLog list \<Rightarrow> (ctx \<times> query list) \<times> SteamQueryLog list" where
  "steam_calculator l req db =
     (case generate_saturation_dome (IAPWS97 l) of
        ((liquid_line, vapor_line), tr0) \<Rightarrow>
          let context = [''liquid_line'' \<mapsto> PJson (PList liquid_line),
                         ''vapor_line'' \<mapsto> PJson (PList vapor_line)]
          in
          if http_method req = ''POST'' then
            let mode = (case POST req ''mode'' of None \<Rightarrow> ''state_point'' | Some m \<Rightarrow> m) in
            if mode = ''rankine_cycle'' then
              (case handle_rankine_cycle l req (context(''active_mode'' \<mapsto> PStr ''rankine'')) of
                 (context', tr) \<Rightarrow> ((context', tr0 @ tr), db))
            else
              (case handle_state_point l req (context(''active_mode'' \<mapsto> PStr ''state'')) of
                 (context', tr) \<Rightarrow> ((context', tr0 @ tr), db))
          else ((context, tr0), db))"

subsection \<open>Engines given by a finite table, for concrete runs\<close>

definition table_engine :: "(query \<times> steam) list \<Rightarrow> engine" where
  "table_engine tbl q =
     (case map_of tbl q of
        None \<Rightarrow> Inl (NotImplementedError ''Incoming out of bound'')
      | Some st \<Rightarrow> Inr st)"

definition mk_steam :: "real \<Rightarrow> real \<Rightarrow> real \<Rightarrow> real \<Rightarrow> real option \<Rightarrow> string \<Rightarrow> steam" where
  "mk_steam p t hh ss q ph =
     \<lparr>st_P = p, st_T = t, st_h = hh, st_s = ss, st_v = 1, st_x = q, st_phase = ph\<rparr>"

definition dict_get :: "pyval \<Rightarrow> string \<Rightarrow> pyval option" where
  "dict_get d k = (case d of PDict kvs \<Rightarrow> map_of kvs k | other \<Rightarrow> None)"

definition table_float :: "(string \<times> real) list \<Rightarrow> string \<Rightarrow> string + real" where
  "table_float tbl txt =
     (case map_of tbl txt of
        None \<Rightarrow> Inl (''could not convert string to float: '' @ txt)
      | Some r \<Rightarrow> Inr r)"

definition float_table :: "(string \<times> real) list" where
  "float_table =
     [(''10'', 10), (''100'', 100), (''326.85'', 326.85), (''50'', 50), (''5'', 5),
      (''0'', 0), (''1'', 1), (''300'', 300), (''150'', 150)]"

definition rankine_table :: "real option \<Rightarrow> string \<Rightarrow> (query \<times> steam) list" where
  "rankine_table x2 phase3 =
     [(Q_Px 1 0, mk_steam 1 300 100 1 (Some 0) ''Two-phase''),
      (Q_Ps 10 1, mk_steam 10 301 110 1 (Some 0) ''Liquid''),
      (Q_Ph 10 120, mk_steam 10 302 120 2 x2 ''Liquid''),
      (Q_PT 10 600, mk_steam 10 600 2120 7 (Some 0.97) phase3),
      (Q_Ps 1 7, mk_steam 1 300 1080 7 (Some 0.8) ''Two-phase''),
      (Q_Ph 1 1600, mk_steam 1 300 1600 8 (Some 0.9) ''Two-phase'')]"

definition rankine_lib :: "real option \<Rightarrow> string \<Rightarrow> lib" where
  "rankine_lib x2 phase3 =
     \<lparr>IAPWS97 = table_engine (rankine_table x2 phase3), py_float = table_float float_table\<rparr>"

definition rankine_req :: request where
  "rankine_req =
     \<lparr>http_method = ''POST'',
      POST = [''mode'' \<mapsto> ''rankine_cycle'', ''p_cond'' \<mapsto> ''10'', ''p_boiler'' \<mapsto> ''100'',
              ''t_boiler'' \<mapsto> ''326.85'', ''pump_eff'' \<mapsto> ''50'', ''turbine_eff'' \<mapsto> ''50'']\<rparr>"

definition reported :: "ctx \<Rightarrow> string \<Rightarrow> string \<Rightarrow> pyval option" where
  "reported context k field = (case context k of None \<Rightarrow> None | Some d \<Rightarrow> dict_get d field)"

definition bad_pressure_req :: request where
  "bad_pressure_req =
     \<lparr>http_method = ''POST'',
      POST = [''mode'' \<mapsto> ''rankine_cycle'', ''p_cond'' \<mapsto> ''10'', ''p_boiler'' \<mapsto> ''5'',
              ''pump_eff'' \<mapsto> ''0'']\<rparr>"

definition bad_efficiency_req :: request where
  "bad_efficiency_req =
     \<lparr>http_method = ''POST'',
      POST = [''mode'' \<mapsto> ''rankine_cycle'', ''p_cond'' \<mapsto> ''10'', ''p_boiler'' \<mapsto> ''100'',
              ''turbine_eff'' \<mapsto> ''150'']\<rparr>"

definition state_table :: "real option \<Rightarrow> string \<Rightarrow> (query \<times> steam) list" where
  "state_table xq ph =
     [(Q_PT 1 300, mk_steam 1 300 1000 3 xq ph),
      (Q_Px 1 0.2, mk_steam 1 453 1200 3 (Some 0.2) ''Two-phase''),
      (Q_Px 1 0.4, mk_steam 1 453 1600 4 (Some 0.4) ''Two-phase''),
      (Q_Px 1 0.6, mk_steam 1 453 2000 5 (Some 0.6) ''Two-phase''),
      (Q_Px 1 0.8, mk_steam 1 453 2400 6 (Some 0.8) ''Two-phase'')]"

definition state_lib :: "real option \<Rightarrow> string \<Rightarrow> lib" where
  "state_lib xq ph =
     \<lparr>IAPWS97 = table_engine (state_table xq ph), py_float = table_float float_table\<rparr>"

definition state_req :: "string \<Rightarrow> string \<Rightarrow> request" where
  "state_req p_unit t_unit =
     \<lparr>http_method = ''POST'',
      POST = [''mode'' \<mapsto> ''state_point'', ''pressure'' \<mapsto> ''10'', ''temperature'' \<mapsto> ''300'',
              ''p_unit'' \<mapsto> p_unit, ''t_unit'' \<mapsto> t_unit]\<rparr>"

definition unexpected_error :: string where
  "unexpected_error = ''An unexpected calculation error occurred. Verify your inputs.''"

definition dome_table :: "(query \<times> steam) list" where
  "dome_table =
     [(Q_Tx 273.15 0, mk_steam 0.0006 273.15 0 0 (Some 0) ''Two-phase''),
      (Q_Tx 273.15 1, mk_steam 0.0006 273.15 2500 9 (Some 1) ''Two-phase''),
      (Q_Tx 283.15 0, mk_steam 0.0012 283.15 42 0.15 (Some 0) ''Two-phase'')]"

section \<open>Properties\<close>

subsection \<open>The saturation dome\<close>

lemma py_range_sweep:
  "py_range 0 374 10 =
     [0, 10, 20, 30, 40, 50, 60, 70, 80, 90, 100, 110, 120, 130, 140, 150, 160, 170, 180,
      190, 200, 210, 220, 230, 240, 250, 260, 270, 280, 290, 300, 310, 320, 330, 340, 350,
      360, 370]"
  by (simp add: py_range_def upt_rec)

lemma dome_step_lines:
  "fst (dome_step eng ((l, v), tr) t) =
     (l @ map (sat_point eng 0) (filter (dome_ok eng) [t]),
      v @ map (sat_point eng 1) (filter (dome_ok eng) [t]))"
  by (cases "eng (Q_Tx (real_of_int t + 273.15) 0)"; cases "eng (Q_Tx (real_of_int t + 273.15) 1)")
     (simp_all add: dome_step_def Let_def dome_ok_def succeeded_def sat_point_def)

lemma dome_fold_lines:
  "fst (foldl (dome_step eng) ((l, v), tr) ts) =
     (l @ map (sat_point eng 0) (filter (dome_ok eng) ts),
      v @ map (sat_point eng 1) (filter (dome_ok eng) ts))"
proof (induction ts arbitrary: l v tr)
  case Nil
  then show ?case by simp
next
  case (Cons t ts)
  obtain l1 v1 tr1 where s: "dome_step eng ((l, v), tr) t = ((l1, v1), tr1)"
    by (metis prod.exhaust)
  have lv: "(l1, v1) = (l @ map (sat_point eng 0) (filter (dome_ok eng) [t]),
      v @ map (sat_point eng 1) (filter (dome_ok eng) [t]))"
    using dome_step_lines[of eng l v tr t] s by simp
  have "fst (foldl (dome_step eng) ((l, v), tr) (t # ts)) =
          fst (foldl (dome_step eng) ((l1, v1), tr1) ts)"
    using s by simp
  also have "\<dots> = (l1 @ map (sat_point eng 0) (filter (dome_ok eng) ts),
      v1 @ map (sat_point eng 1) (filter (dome_ok eng) ts))"
    by (rule Cons.IH)
  finally show ?case using lv by simp
qed

lemma dome_step_trace:
  "snd (dome_step eng ((l, v), tr) t) = tr @ dome_calls eng t"
  by (cases "eng (Q_Tx (real_of_int t + 273.15) 0)"; cases "eng (Q_Tx (real_of_int t + 273.15) 1)")
     (simp_all add: dome_step_def Let_def dome_calls_def succeeded_def)

lemma dome_fold_trace:
  "snd (foldl (dome_step eng) ((l, v), tr) ts) = tr @ concat (map (dome_calls eng) ts)"
proof (induction ts arbitrary: l v tr)
  case Nil
  then show ?case by simp
next
  case (Cons t ts)
  obtain l1 v1 tr1 where s: "dome_step eng ((l, v), tr) t = ((l1, v1), tr1)"
    by (metis prod.exhaust)
  have a: "tr1 = tr @ dome_calls eng t"
    using dome_step_trace[of eng l v tr t] s by simp
  have b: "snd (foldl (dome_step eng) ((l1, v1), tr1) ts) = tr1 @ concat (map (dome_calls eng) ts)"
    by (rule Cons.IH)
  show ?case using a b s by simp
qed

lemma dome_lines:
  "fst (generate_saturation_dome eng) =
     (map (sat_point eng 0) (filter (dome_ok eng) (py_range 0 374 10)) @ [critical_point],
      map (sat_point eng 1) (filter (dome_ok eng) (py_range 0 374 10)) @ [critical_point])"
proof -
  obtain l v tr where f: "foldl (dome_step eng) (([], []), []) (py_range 0 374 10) = ((l, v), tr)"
    by (metis prod.exhaust)
  from dome_fold_lines[of eng "[]" "[]" "[]" "py_range 0 374 10"] f
  have "(l, v) = (map (sat_point eng 0) (filter (dome_ok eng) (py_range 0 374 10)),
                  map (sat_point eng 1) (filter (dome_ok eng) (py_range 0 374 10)))"
    by simp
  then show ?thesis using f by (simp add: generate_saturation_dome_def)
qed

lemma dome_trace:
  "snd (generate_saturation_dome eng) = concat (map (dome_calls eng) (py_range 0 374 10))"
proof -
  obtain l v tr where f: "foldl (dome_step eng) (([], []), []) (py_range 0 374 10) = ((l, v), tr)"
    by (metis prod.exhaust)
  from dome_fold_trace[of eng "[]" "[]" "[]" "py_range 0 374 10"] f
  have "tr = concat (map (dome_calls eng) (py_range 0 374 10))" by simp
  then show ?thesis using f by (simp add: generate_saturation_dome_def)
qed

lemma dome_table_ok:
  "filter (dome_ok (table_engine dome_table)) (py_range 0 374 10) = [0]"
  by (simp add: py_range_sweep dome_ok_def succeeded_def table_engine_def dome_table_def)

text \<open>
  C9. Whatever the property engine does, the sampler returns a liquid branch and a vapor
  branch of the same length: a sweep step appends one point to both branches when both
  engine calls succeed and leaves both unchanged otherwise, and the critical point is
  appended to both.
\<close>

theorem C9_dome_branches_equal_length:
  "length (fst (fst (generate_saturation_dome eng))) =
     length (snd (fst (generate_saturation_dome eng)))
   \<and> fst (dome_step eng ((l, v), tr) t) =
       (if dome_ok eng t then (l @ [sat_point eng 0 t], v @ [sat_point eng 1 t]) else (l, v))
   \<and> last (fst (fst (generate_saturation_dome eng))) = critical_point
   \<and> last (snd (fst (generate_saturation_dome eng))) = critical_point"
  by (simp add: dome_lines dome_step_lines)

theorem C9_dome_branches_equal_length_witness:
  "length (fst (fst (generate_saturation_dome (table_engine dome_table)))) = 2
   \<and> length (snd (fst (generate_saturation_dome (table_engine dome_table)))) = 2
   \<and> fst (dome_step (table_engine dome_table) (([], []), []) 10) = ([], [])"
proof -
  have a: "\<not> dome_ok (table_engine dome_table) 10"
    by (simp add: dome_ok_def succeeded_def table_engine_def dome_table_def)
  have b: "length (fst (fst (generate_saturation_dome (table_engine dome_table)))) = 2"
    by (simp add: dome_lines dome_table_ok)
  show ?thesis
    using C9_dome_branches_equal_length [of "table_engine dome_table" "[]" "[]" "[]" 10] a b
    by simp
qed

text \<open>
  C8. The sampler sweeps the temperatures 0, 10, ..., 370 degrees Celsius (step 10, the
  last one just under the critical 373.946), calls the engine at each with quality 0 and,
  when that call returned, with quality 1; a temperature at which either call fails
  contributes no point and raises nothing; and both returned sequences end with the
  critical point (entropy 4.406, temperature 373.946).
\<close>

theorem C8_dome_sweep:
  "py_range 0 374 10 =
     [0, 10, 20, 30, 40, 50, 60, 70, 80, 90, 100, 110, 120, 130, 140, 150, 160, 170, 180,
      190, 200, 210, 220, 230, 240, 250, 260, 270, 280, 290, 300, 310, 320, 330, 340, 350,
      360, 370]
   \<and> snd (generate_saturation_dome eng) = concat (map (dome_calls eng) (py_range 0 374 10))
   \<and> fst (generate_saturation_dome eng) =
       (map (sat_point eng 0) (filter (dome_ok eng) (py_range 0 374 10)) @ [critical_point],
        map (sat_point eng 1) (filter (dome_ok eng) (py_range 0 374 10)) @ [critical_point])
   \<and> last (fst (fst (generate_saturation_dome eng))) =
       PDict [(''x'', PFloat 4.406), (''y'', PFloat 373.946)]
   \<and> last (snd (fst (generate_saturation_dome eng))) =
       PDict [(''x'', PFloat 4.406), (''y'', PFloat 373.946)]"
proof -
  have "last (fst (fst (generate_saturation_dome eng))) = critical_point"
       "last (snd (fst (generate_saturation_dome eng))) = critical_point"
    by (simp_all add: dome_lines)
  then show ?thesis
    using py_range_sweep dome_trace[of eng] dome_lines[of eng]
    by (simp add: critical_point_def)
qed

theorem C8_dome_sweep_witness:
  "fst (generate_saturation_dome (table_engine dome_table)) =
     ([dome_point 0 0, critical_point], [dome_point 9 0, critical_point])
   \<and> take 6 (snd (generate_saturation_dome (table_engine dome_table))) =
       [Q_Tx 273.15 0, Q_Tx 273.15 1, Q_Tx 283.15 0, Q_Tx 283.15 1, Q_Tx 293.15 0, Q_Tx 303.15 0]"
proof -
  have f: "filter (dome_ok (table_engine dome_table)) (py_range 0 374 10) = [0]"
    by (rule dome_table_ok)
  have p: "sat_point (table_engine dome_table) 0 0 = dome_point 0 0"
          "sat_point (table_engine dome_table) 1 0 = dome_point 9 0"
    by (simp_all add: sat_point_def table_engine_def dome_table_def mk_steam_def)
  have c: "take 6 (concat (map (dome_calls (table_engine dome_table)) (py_range 0 374 10))) =
       [Q_Tx 273.15 0, Q_Tx 273.15 1, Q_Tx 283.15 0, Q_Tx 283.15 1, Q_Tx 293.15 0, Q_Tx 303.15 0]"
    by (simp add: py_range_sweep dome_calls_def succeeded_def table_engine_def dome_table_def)
  from C8_dome_sweep [of "table_engine dome_table"]
  have t: "snd (generate_saturation_dome (table_engine dome_table)) =
      concat (map (dome_calls (table_engine dome_table)) (py_range 0 374 10))"
    and l: "fst (generate_saturation_dome (table_engine dome_table)) =
       (map (sat_point (table_engine dome_table) 0)
          (filter (dome_ok (table_engine dome_table)) (py_range 0 374 10)) @ [critical_point],
        map (sat_point (table_engine dome_table) 1)
          (filter (dome_ok (table_engine dome_table)) (py_range 0 374 10)) @ [critical_point])"
    by blast+
  have A: "fst (generate_saturation_dome (table_engine dome_table)) =
     ([dome_point 0 0, critical_point], [dome_point 9 0, critical_point])"
    unfolding l f by (simp add: p)
  have B: "take 6 (snd (generate_saturation_dome (table_engine dome_table))) =
       [Q_Tx 273.15 0, Q_Tx 273.15 1, Q_Tx 283.15 0, Q_Tx 283.15 1, Q_Tx 293.15 0, Q_Tx 303.15 0]"
    unfolding t by (rule c)
  show ?thesis by (rule conjI[OF A B])
qed

subsection \<open>The Rankine cycle: how a run unfolds\<close>

lemma py_bind_Inr:
  "py_bind m f = (Inr b, tr) \<longleftrightarrow>
     (\<exists>a t1 t2. m = (Inr a, t1) \<and> f a = (Inr b, t2) \<and> tr = t1 @ t2)"
  by (cases m; cases "fst m") (auto simp: py_bind_def split: prod.splits sum.splits)

lemma engine_call_Inr:
  "engine_call l q = (Inr st, tr) \<longleftrightarrow> IAPWS97 l q = Inr st \<and> tr = [q]"
  by (auto simp: engine_call_def)

lemma no_call_Inr: "no_call r = (Inr a, tr) \<longleftrightarrow> r = Inr a \<and> tr = []"
  by (auto simp: no_call_def)

lemma py_div_Inr: "py_div a b = (Inr c, tr) \<longleftrightarrow> b \<noteq> 0 \<and> c = a / b \<and> tr = []"
  by (auto simp: py_div_def py_raise_def py_return_def)

lemma py_return_Inr: "py_return a = (Inr b, tr) \<longleftrightarrow> a = b \<and> tr = []"
  by (auto simp: py_return_def)

lemma py_raise_Inr: "py_raise e = (Inr b, tr) \<longleftrightarrow> False"
  by (auto simp: py_raise_def)

lemma get_x_Inr: "get_x st = (Inr q, tr) \<longleftrightarrow> st_x st = Some q \<and> tr = []"
  by (auto simp: get_x_def py_raise_def py_return_def split: option.splits)

lemma rankine_states_Inr:
  assumes "rankine_states l p_low p_high t_high pump_eff turbine_eff = (Inr upd, tr)"
  shows "\<exists>state1 state2s state2 state3 state4s state4.
      p_low < p_high \<and> 0 < pump_eff \<and> pump_eff \<le> 1 \<and> 0 < turbine_eff \<and> turbine_eff \<le> 1 \<and>
      IAPWS97 l (Q_Px (p_low / 10) 0) = Inr state1 \<and>
      IAPWS97 l (Q_Ps (p_high / 10) (st_s state1)) = Inr state2s \<and>
      IAPWS97 l (Q_Ph (p_high / 10) (st_h state1 + (st_h state2s - st_h state1) / pump_eff)) = Inr state2 \<and>
      IAPWS97 l (Q_PT (p_high / 10) (t_high + 273.15)) = Inr state3 \<and>
      IAPWS97 l (Q_Ps (p_low / 10) (st_s state3)) = Inr state4s \<and>
      IAPWS97 l (Q_Ph (p_low / 10) (st_h state3 - (st_h state3 - st_h state4s) * turbine_eff)) = Inr state4 \<and>
      tr = [Q_Px (p_low / 10) 0,
            Q_Ps (p_high / 10) (st_s state1),
            Q_Ph (p_high / 10) (st_h state1 + (st_h state2s - st_h state1) / pump_eff),
            Q_PT (p_high / 10) (t_high + 273.15),
            Q_Ps (p_low / 10) (st_s state3),
            Q_Ph (p_low / 10) (st_h state3 - (st_h state3 - st_h state4s) * turbine_eff)] \<and>
      rankine_report p_low p_high t_high pump_eff turbine_eff state1 state2 state3 state4 = (Inr upd, [])"
proof -
  have c1: "\<not> p_low \<ge> p_high" and c2: "\<not> (pump_eff \<le> 0 \<or> turbine_eff \<le> 0 \<or> pump_eff > 1 \<or> turbine_eff > 1)"
    using assms by (auto simp: rankine_states_def py_raise_def split: if_splits)
  have rep_tr: "\<And>a b c d e s1 s2 s3 s4 u t. rankine_report a b c d e s1 s2 s3 s4 = (u, t) \<Longrightarrow> t = []"
    by (auto simp: rankine_report_def Let_def py_bind_def py_div_def py_raise_def py_return_def get_x_def
        split: if_splits prod.splits sum.splits option.splits)
  from assms c1 c2 show ?thesis
    apply (simp add: rankine_states_def Let_def py_bind_Inr engine_call_Inr py_div_Inr)
    apply (elim exE conjE)
    apply (frule rep_tr)
    apply auto
    done
qed

lemma rankine_try_parsed:
  assumes "float_field_default l (POST req ''p_cond'') 0.05 = Inr p_low"
    and "float_field_default l (POST req ''p_boiler'') 10 = Inr p_high"
    and "float_field_default l (POST req ''t_boiler'') 450 = Inr t_high"
    and "float_field_default l (POST req ''pump_eff'') 85 = Inr pump_pct"
    and "float_field_default l (POST req ''turbine_eff'') 85 = Inr turbine_pct"
  shows "rankine_try l req =
           rankine_states l p_low p_high t_high (pump_pct / 100) (turbine_pct / 100)"
  using assms by (simp add: rankine_try_def py_bind_def no_call_def split: prod.splits)

lemma rankine_try_Inr:
  assumes "rankine_try l req = (Inr upd, tr)"
  shows "\<exists>p_low p_high t_high pump_pct turbine_pct.
      float_field_default l (POST req ''p_cond'') 0.05 = Inr p_low \<and>
      float_field_default l (POST req ''p_boiler'') 10 = Inr p_high \<and>
      float_field_default l (POST req ''t_boiler'') 450 = Inr t_high \<and>
      float_field_default l (POST req ''pump_eff'') 85 = Inr pump_pct \<and>
      float_field_default l (POST req ''turbine_eff'') 85 = Inr turbine_pct \<and>
      rankine_states l p_low p_high t_high (pump_pct / 100) (turbine_pct / 100) = (Inr upd, tr)"
  using assms by (auto simp: rankine_try_def py_bind_Inr no_call_Inr)

lemma rankine_report_no_call:
  "snd (rankine_report a b c d e s1 s2 s3 s4) = []"
  by (auto simp: rankine_report_def Let_def py_bind_def py_div_def py_raise_def py_return_def get_x_def
        split: if_splits prod.splits sum.splits option.splits)

lemma handle_rankine_trace: "snd (handle_rankine_cycle l req context) = snd (rankine_try l req)"
  by (simp add: handle_rankine_cycle_def split: prod.splits sum.splits)

lemma py_bind_call_trace:
  "snd (py_bind (engine_call l q) f) =
     (case IAPWS97 l q of Inl e \<Rightarrow> [q] | Inr st \<Rightarrow> q # snd (f st))"
  by (simp add: py_bind_def engine_call_def split: sum.splits prod.splits)

lemma py_bind_div_trace:
  "b \<noteq> 0 \<Longrightarrow> snd (py_bind (py_div a b) f) = snd (f (a / b))"
  by (simp add: py_bind_def py_div_def py_return_def split: sum.splits prod.splits)

lemma sum_case_const: "(case r of Inl e \<Rightarrow> c | Inr y \<Rightarrow> c) = c"
  by (cases r) simp_all

lemma rankine_states_trace:
  assumes "p_low < p_high" "0 < pump_eff" "pump_eff \<le> 1" "0 < turbine_eff" "turbine_eff \<le> 1"
  shows "snd (rankine_states l p_low p_high t_high pump_eff turbine_eff) =
    (case IAPWS97 l (Q_Px (p_low / 10) 0) of Inl e \<Rightarrow> [Q_Px (p_low / 10) 0]
     | Inr state1 \<Rightarrow> Q_Px (p_low / 10) 0 #
    (case IAPWS97 l (Q_Ps (p_high / 10) (st_s state1)) of Inl e \<Rightarrow> [Q_Ps (p_high / 10) (st_s state1)]
     | Inr state2s \<Rightarrow> Q_Ps (p_high / 10) (st_s state1) #
    (case IAPWS97 l (Q_Ph (p_high / 10) (st_h state1 + (st_h state2s - st_h state1) / pump_eff)) of
       Inl e \<Rightarrow> [Q_Ph (p_high / 10) (st_h state1 + (st_h state2s - st_h state1) / pump_eff)]
     | Inr state2 \<Rightarrow> Q_Ph (p_high / 10) (st_h state1 + (st_h state2s - st_h state1) / pump_eff) #
    (case IAPWS97 l (Q_PT (p_high / 10) (t_high + 273.15)) of
       Inl e \<Rightarrow> [Q_PT (p_high / 10) (t_high + 273.15)]
     | Inr state3 \<Rightarrow> Q_PT (p_high / 10) (t_high + 273.15) #
    (case IAPWS97 l (Q_Ps (p_low / 10) (st_s state3)) of
       Inl e \<Rightarrow> [Q_Ps (p_low / 10) (st_s state3)]
     | Inr state4s \<Rightarrow> [Q_Ps (p_low / 10) (st_s state3),
          Q_Ph (p_low / 10) (st_h state3 - (st_h state3 - st_h state4s) * turbine_eff)])))))"
  using assms
  by (simp add: rankine_states_def Let_def py_bind_call_trace py_bind_div_trace rankine_report_no_call
        sum_case_const cong: sum.case_cong)

lemma rankine_report_Inr:
  assumes "rankine_report p_low p_high t_high pump_eff turbine_eff s1 s2 s3 s4 = (Inr upd, tr)"
  shows "map_of upd ''efficiency'' =
           Some (if st_h s3 - st_h s2 > 0
                 then PFloat (py_round (((st_h s3 - st_h s4) - (st_h s2 - st_h s1)) / (st_h s3 - st_h s2) * 100) 2)
                 else PInt 0)"
    and "map_of upd ''state2'' = Some (state_entry s2 (quality_or_na s2) (PStr (st_phase s2)))"
    and "map_of upd ''state4'' = Some (state_entry s4 (quality_or_na s4) (PStr (st_phase s4)))"
    and "map_of upd ''state3'' =
           Some (state_entry s3
                  (if st_phase s3 = ''Gas'' then PStr ''1 (sat. vapor)''
                   else PFloat (py_round (the (st_x s3)) 4))
                  (PStr ''Superheated Steam''))"
    and "st_phase s3 \<noteq> ''Gas'' \<Longrightarrow> st_x s3 \<noteq> None"
    and "map_of upd ''success'' = Some (PBool True)"
  using assms
  by (auto simp: rankine_report_def Let_def py_bind_Inr py_div_Inr py_return_Inr py_raise_Inr get_x_Inr
        py_round_num_def split: if_splits)

lemma handle_rankine_success:
  assumes "rankine_try l req = (Inr upd, tr)" and "map_of upd k = Some v"
  shows "fst (handle_rankine_cycle l req context) k = Some v"
  using assms by (simp add: handle_rankine_cycle_def map_add_def)

lemma state_entry_get:
  "dict_get (state_entry st xv ph) ''x'' = Some xv"
  "dict_get (state_entry st xv ph) ''phase'' = Some ph"
  by (simp_all add: dict_get_def state_entry_def)

lemma mk_steam_sel:
  "st_P (mk_steam p t hh ss q ph) = p"
  "st_T (mk_steam p t hh ss q ph) = t"
  "st_h (mk_steam p t hh ss q ph) = hh"
  "st_s (mk_steam p t hh ss q ph) = ss"
  "st_v (mk_steam p t hh ss q ph) = 1"
  "st_x (mk_steam p t hh ss q ph) = q"
  "st_phase (mk_steam p t hh ss q ph) = ph"
  by (simp_all add: mk_steam_def)

lemma rankine_req_parsed:
  "float_field_default (rankine_lib x2 ph3) (POST rankine_req ''p_cond'') 0.05 = Inr 10"
  "float_field_default (rankine_lib x2 ph3) (POST rankine_req ''p_boiler'') 10 = Inr 100"
  "float_field_default (rankine_lib x2 ph3) (POST rankine_req ''t_boiler'') 450 = Inr 326.85"
  "float_field_default (rankine_lib x2 ph3) (POST rankine_req ''pump_eff'') 85 = Inr 50"
  "float_field_default (rankine_lib x2 ph3) (POST rankine_req ''turbine_eff'') 85 = Inr 50"
  by (simp_all add: float_field_default_def rankine_lib_def rankine_req_def table_float_def float_table_def)

lemma rankine_lib_calls:
  "IAPWS97 (rankine_lib x2 ph3) (Q_Px 1 0) = Inr (mk_steam 1 300 100 1 (Some 0) ''Two-phase'')"
  "IAPWS97 (rankine_lib x2 ph3) (Q_Ps 10 1) = Inr (mk_steam 10 301 110 1 (Some 0) ''Liquid'')"
  "IAPWS97 (rankine_lib x2 ph3) (Q_Ph 10 120) = Inr (mk_steam 10 302 120 2 x2 ''Liquid'')"
  "IAPWS97 (rankine_lib x2 ph3) (Q_PT 10 600) = Inr (mk_steam 10 600 2120 7 (Some 0.97) ph3)"
  "IAPWS97 (rankine_lib x2 ph3) (Q_Ps 1 7) = Inr (mk_steam 1 300 1080 7 (Some 0.8) ''Two-phase'')"
  "IAPWS97 (rankine_lib x2 ph3) (Q_Ph 1 1600) = Inr (mk_steam 1 300 1600 8 (Some 0.9) ''Two-phase'')"
  by (simp_all add: rankine_lib_def table_engine_def rankine_table_def)

lemma rankine_states_run:
  assumes "p_low < p_high" "0 < pump_eff" "pump_eff \<le> 1" "0 < turbine_eff" "turbine_eff \<le> 1"
    and "IAPWS97 l (Q_Px (p_low / 10) 0) = Inr state1"
    and "IAPWS97 l (Q_Ps (p_high / 10) (st_s state1)) = Inr state2s"
    and "IAPWS97 l (Q_Ph (p_high / 10) (st_h state1 + (st_h state2s - st_h state1) / pump_eff)) = Inr state2"
    and "IAPWS97 l (Q_PT (p_high / 10) (t_high + 273.15)) = Inr state3"
    and "IAPWS97 l (Q_Ps (p_low / 10) (st_s state3)) = Inr state4s"
    and "IAPWS97 l (Q_Ph (p_low / 10) (st_h state3 - (st_h state3 - st_h state4s) * turbine_eff)) = Inr state4"
  shows "rankine_states l p_low p_high t_high pump_eff turbine_eff =
     (fst (rankine_report p_low p_high t_high pump_eff turbine_eff state1 state2 state3 state4),
      [Q_Px (p_low / 10) 0,
       Q_Ps (p_high / 10) (st_s state1),
       Q_Ph (p_high / 10) (st_h state1 + (st_h state2s - st_h state1) / pump_eff),
       Q_PT (p_high / 10) (t_high + 273.15),
       Q_Ps (p_low / 10) (st_s state3),
       Q_Ph (p_low / 10) (st_h state3 - (st_h state3 - st_h state4s) * turbine_eff)])"
proof -
  obtain r t where rep: "rankine_report p_low p_high t_high pump_eff turbine_eff state1 state2 state3 state4 = (r, t)"
    by (metis prod.exhaust)
  have "t = []" using rankine_report_no_call[of p_low p_high t_high pump_eff turbine_eff state1 state2 state3 state4] rep
    by simp
  with assms rep show ?thesis
    by (simp add: rankine_states_def Let_def py_bind_def engine_call_def py_div_def py_return_def)
qed

lemma rankine_report_ok:
  assumes "t_high + 273.15 \<noteq> 0" and "st_phase s3 = ''Gas'' \<or> st_x s3 \<noteq> None"
  shows "\<exists>upd. rankine_report p_low p_high t_high pump_eff turbine_eff s1 s2 s3 s4 = (Inr upd, [])"
  using assms
  by (auto simp: rankine_report_def Let_def py_bind_def py_div_def py_return_def get_x_def)

lemma rankine_run:
  "\<exists>upd. rankine_try (rankine_lib x2 ph3) rankine_req =
     (Inr upd,
      [Q_Px 1 0, Q_Ps 10 1, Q_Ph 10 120, Q_PT 10 600, Q_Ps 1 7, Q_Ph 1 1600])"
proof -
  let ?L = "rankine_lib x2 ph3"
  have st: "rankine_states ?L 10 100 326.85 (50 / 100) (50 / 100) =
     (fst (rankine_report 10 100 326.85 (50 / 100) (50 / 100)
       (mk_steam 1 300 100 1 (Some 0) ''Two-phase'')
       (mk_steam 10 302 120 2 x2 ''Liquid'')
       (mk_steam 10 600 2120 7 (Some 0.97) ph3)
       (mk_steam 1 300 1600 8 (Some 0.9) ''Two-phase'')),
      [Q_Px 1 0, Q_Ps 10 1, Q_Ph 10 120, Q_PT 10 600, Q_Ps 1 7, Q_Ph 1 1600])"
    using rankine_states_run[where l = ?L and p_low = 10 and p_high = 100 and t_high = "326.85"
       and pump_eff = "50 / 100" and turbine_eff = "50 / 100"
       and ?state1.0 = "mk_steam 1 300 100 1 (Some 0) ''Two-phase''"
       and state2s = "mk_steam 10 301 110 1 (Some 0) ''Liquid''"
       and ?state2.0 = "mk_steam 10 302 120 2 x2 ''Liquid''"
       and ?state3.0 = "mk_steam 10 600 2120 7 (Some 0.97) ph3"
       and state4s = "mk_steam 1 300 1080 7 (Some 0.8) ''Two-phase''"
       and ?state4.0 = "mk_steam 1 300 1600 8 (Some 0.9) ''Two-phase''"]
    by (simp add: rankine_lib_calls mk_steam_sel)
  obtain upd where "rankine_report 10 100 326.85 (50 / 100) (50 / 100)
       (mk_steam 1 300 100 1 (Some 0) ''Two-phase'')
       (mk_steam 10 302 120 2 x2 ''Liquid'')
       (mk_steam 10 600 2120 7 (Some 0.97) ph3)
       (mk_steam 1 300 1600 8 (Some 0.9) ''Two-phase'') = (Inr upd, [])"
    using rankine_report_ok[where t_high = "326.85" and ?s3.0 = "mk_steam 10 600 2120 7 (Some 0.97) ph3"
        and p_low = 10 and p_high = 100 and pump_eff = "50 / 100" and turbine_eff = "50 / 100"
        and ?s1.0 = "mk_steam 1 300 100 1 (Some 0) ''Two-phase''"
        and ?s2.0 = "mk_steam 10 302 120 2 x2 ''Liquid''"
        and ?s4.0 = "mk_steam 1 300 1600 8 (Some 0.9) ''Two-phase''"]
    by (auto simp: mk_steam_sel)
  with st show ?thesis
    by (simp add: rankine_try_parsed[OF rankine_req_parsed])
qed

lemma handle_rankine_success_eq:
  assumes "rankine_try l req = (Inr upd, tr)"
  shows "handle_rankine_cycle l req context = (context ++ map_of upd, tr)"
  using assms by (simp add: handle_rankine_cycle_def)

lemma rankine_success_states:
  assumes "rankine_try l req = (Inr upd, tr)"
  shows "\<exists>p_low p_high t_high pump_eff turbine_eff state1 state2 state3 state4.
      length tr = 6 \<and>
      IAPWS97 l (tr ! 0) = Inr state1 \<and> IAPWS97 l (tr ! 2) = Inr state2 \<and>
      IAPWS97 l (tr ! 3) = Inr state3 \<and> IAPWS97 l (tr ! 5) = Inr state4 \<and>
      rankine_report p_low p_high t_high pump_eff turbine_eff state1 state2 state3 state4 =
        (Inr upd, [])"
proof -
  from rankine_try_Inr[OF assms] obtain p_low p_high t_high pump_pct turbine_pct where
    st: "rankine_states l p_low p_high t_high (pump_pct / 100) (turbine_pct / 100) = (Inr upd, tr)"
    by blast
  from rankine_states_Inr[OF st] show ?thesis
    by (elim exE conjE) (rule exI conjI | simp)+
qed

lemma reported_success:
  assumes "rankine_try l req = (Inr upd, tr)" and "map_of upd k = Some d"
  shows "reported (fst (handle_rankine_cycle l req context)) k field = dict_get d field"
  using assms by (simp add: reported_def handle_rankine_cycle_def map_add_def)

lemma py_round_values:
  "py_round 0 4 = 0" "py_round (9 / 10) 4 = 9 / 10" "py_round (97 / 100) 4 = 97 / 100"
  "py_round 25 2 = 25"
  by (simp_all add: py_round_def round_half_even_def)

lemma bad_pressure_parsed:
  "float_field_default (rankine_lib x2 ph3) (POST bad_pressure_req ''p_cond'') 0.05 = Inr 10"
  "float_field_default (rankine_lib x2 ph3) (POST bad_pressure_req ''p_boiler'') 10 = Inr 5"
  "float_field_default (rankine_lib x2 ph3) (POST bad_pressure_req ''t_boiler'') 450 = Inr 450"
  "float_field_default (rankine_lib x2 ph3) (POST bad_pressure_req ''pump_eff'') 85 = Inr 0"
  "float_field_default (rankine_lib x2 ph3) (POST bad_pressure_req ''turbine_eff'') 85 = Inr 85"
  by (simp_all add: float_field_default_def rankine_lib_def bad_pressure_req_def table_float_def
        float_table_def)

lemma bad_efficiency_parsed:
  "float_field_default (rankine_lib x2 ph3) (POST bad_efficiency_req ''p_cond'') 0.05 = Inr 10"
  "float_field_default (rankine_lib x2 ph3) (POST bad_efficiency_req ''p_boiler'') 10 = Inr 100"
  "float_field_default (rankine_lib x2 ph3) (POST bad_efficiency_req ''t_boiler'') 450 = Inr 450"
  "float_field_default (rankine_lib x2 ph3) (POST bad_efficiency_req ''pump_eff'') 85 = Inr 85"
  "float_field_default (rankine_lib x2 ph3) (POST bad_efficiency_req ''turbine_eff'') 85 = Inr 150"
  by (simp_all add: float_field_default_def rankine_lib_def bad_efficiency_req_def table_float_def
        float_table_def)

text \<open>
  C2 as stated fails where both checks fail: with condenser pressure 10 bar, boiler
  pressure 5 bar and pump efficiency 0 percent the efficiency 0 lies outside (0, 1], and
  the request is rejected with the physics-violation message, not with the efficiency
  message. The pressure check is the first statement and raises before the efficiency
  check is reached.
\<close>

theorem C2_both_checks_fail_counterexample:
  "float_field_default (rankine_lib None ''Gas'') (POST bad_pressure_req ''p_cond'') 0.05 = Inr 10
   \<and> float_field_default (rankine_lib None ''Gas'') (POST bad_pressure_req ''p_boiler'') 10 = Inr 5
   \<and> float_field_default (rankine_lib None ''Gas'') (POST bad_pressure_req ''pump_eff'') 85 = Inr 0
   \<and> \<not> (0 < (0 :: real) / 100)
   \<and> handle_rankine_cycle (rankine_lib None ''Gas'') bad_pressure_req Map.empty =
       ([''error'' \<mapsto> PStr physics_violation], [])
   \<and> handle_rankine_cycle (rankine_lib None ''Gas'') bad_pressure_req Map.empty \<noteq>
       ([''error'' \<mapsto> PStr invalid_efficiency], [])"
proof -
  have r: "handle_rankine_cycle (rankine_lib None ''Gas'') bad_pressure_req Map.empty =
       ([''error'' \<mapsto> PStr physics_violation], [])"
    unfolding handle_rankine_cycle_def rankine_try_parsed[OF bad_pressure_parsed]
    by (simp add: rankine_states_def py_raise_def rankine_error_def)
  have d: "([''error'' \<mapsto> PStr physics_violation], []) \<noteq>
       ([''error'' \<mapsto> PStr invalid_efficiency], ([] :: query list))"
  proof
    assume "([''error'' \<mapsto> PStr physics_violation], []) =
       ([''error'' \<mapsto> PStr invalid_efficiency], ([] :: query list))"
    then have "[''error'' \<mapsto> PStr physics_violation] ''error'' =
        [''error'' \<mapsto> PStr invalid_efficiency] ''error''"
      by simp
    then show False
      by (simp add: physics_violation_def invalid_efficiency_def)
  qed
  have n: "handle_rankine_cycle (rankine_lib None ''Gas'') bad_pressure_req Map.empty \<noteq>
       ([''error'' \<mapsto> PStr invalid_efficiency], [])"
    unfolding r by (rule d)
  have z: "\<not> (0 < (0 :: real) / 100)"
    by simp
  show ?thesis
    by (intro conjI)
       (rule bad_pressure_parsed(1) bad_pressure_parsed(2) bad_pressure_parsed(4) z r n)+
qed

text \<open>
  C2, amended. For every Rankine input whose five fields are, or default to, finite
  numbers, the two checks run in the order of the source and before any engine call: a
  condenser pressure not below the boiler pressure is rejected with the
  physics-violation message, whatever the efficiencies; when the boiler pressure exceeds
  the condenser pressure, an efficiency outside (0, 1] is rejected with the efficiency
  message; in both cases no engine call is made.
\<close>

theorem C2_preconditions_fail_fast:
  assumes "float_field_default l (POST req ''p_cond'') 0.05 = Inr p_low"
    and "float_field_default l (POST req ''p_boiler'') 10 = Inr p_high"
    and "float_field_default l (POST req ''t_boiler'') 450 = Inr t_high"
    and "float_field_default l (POST req ''pump_eff'') 85 = Inr pump_pct"
    and "float_field_default l (POST req ''turbine_eff'') 85 = Inr turbine_pct"
  shows "(p_low \<ge> p_high \<longrightarrow>
            handle_rankine_cycle l req context =
              (context(''error'' \<mapsto> PStr physics_violation), []))
       \<and> (p_low < p_high \<and>
            (\<not> (0 < pump_pct / 100 \<and> pump_pct / 100 \<le> 1) \<or>
             \<not> (0 < turbine_pct / 100 \<and> turbine_pct / 100 \<le> 1)) \<longrightarrow>
            handle_rankine_cycle l req context =
              (context(''error'' \<mapsto> PStr invalid_efficiency), []))
       \<and> (\<not> (0 < pump_pct / 100 \<and> pump_pct / 100 \<le> 1) \<or>
            \<not> (0 < turbine_pct / 100 \<and> turbine_pct / 100 \<le> 1) \<longrightarrow>
            snd (handle_rankine_cycle l req context) = [])"
  unfolding handle_rankine_cycle_def rankine_try_parsed[OF assms]
  by (auto simp: rankine_states_def py_raise_def rankine_error_def)

theorem C2_preconditions_fail_fast_witness:
  "handle_rankine_cycle (rankine_lib None ''Gas'') bad_pressure_req Map.empty =
     ([''error'' \<mapsto> PStr physics_violation], [])
   \<and> handle_rankine_cycle (rankine_lib None ''Gas'') bad_efficiency_req Map.empty =
     ([''error'' \<mapsto> PStr invalid_efficiency], [])"
  using C2_preconditions_fail_fast [OF bad_pressure_parsed, of None "''Gas''" Map.empty]
    C2_preconditions_fail_fast [OF bad_efficiency_parsed, of None "''Gas''" Map.empty]
  by simp

text \<open>
  C6. Once both checks have passed, the engine is called for State 1, 2s, 2, 3, 4s, 4 in
  this order, each call made only when the one before it returned: State 2s from the
  boiler pressure and the entropy of State 1, State 2 from the boiler pressure and
  h1 + (h2s - h1) / pump efficiency, State 4s from the condenser pressure and the entropy
  of State 3, State 4 from the condenser pressure and h3 - (h3 - h4s) * turbine efficiency.
  When the six calls return, these six are the calls made.
\<close>

theorem C6_states_in_order:
  assumes "float_field_default l (POST req ''p_cond'') 0.05 = Inr p_low"
    and "float_field_default l (POST req ''p_boiler'') 10 = Inr p_high"
    and "float_field_default l (POST req ''t_boiler'') 450 = Inr t_high"
    and "float_field_default l (POST req ''pump_eff'') 85 = Inr pump_pct"
    and "float_field_default l (POST req ''turbine_eff'') 85 = Inr turbine_pct"
    and "p_low < p_high"
    and "0 < pump_pct / 100" and "pump_pct / 100 \<le> 1"
    and "0 < turbine_pct / 100" and "turbine_pct / 100 \<le> 1"
  shows "snd (handle_rankine_cycle l req context) =
    (case IAPWS97 l (Q_Px (p_low / 10) 0) of Inl e \<Rightarrow> [Q_Px (p_low / 10) 0]
     | Inr state1 \<Rightarrow> Q_Px (p_low / 10) 0 #
    (case IAPWS97 l (Q_Ps (p_high / 10) (st_s state1)) of
       Inl e \<Rightarrow> [Q_Ps (p_high / 10) (st_s state1)]
     | Inr state2s \<Rightarrow> Q_Ps (p_high / 10) (st_s state1) #
    (case IAPWS97 l (Q_Ph (p_high / 10)
                       (st_h state1 + (st_h state2s - st_h state1) / (pump_pct / 100))) of
       Inl e \<Rightarrow> [Q_Ph (p_high / 10)
                   (st_h state1 + (st_h state2s - st_h state1) / (pump_pct / 100))]
     | Inr state2 \<Rightarrow>
         Q_Ph (p_high / 10) (st_h state1 + (st_h state2s - st_h state1) / (pump_pct / 100)) #
    (case IAPWS97 l (Q_PT (p_high / 10) (t_high + 273.15)) of
       Inl e \<Rightarrow> [Q_PT (p_high / 10) (t_high + 273.15)]
     | Inr state3 \<Rightarrow> Q_PT (p_high / 10) (t_high + 273.15) #
    (case IAPWS97 l (Q_Ps (p_low / 10) (st_s state3)) of
       Inl e \<Rightarrow> [Q_Ps (p_low / 10) (st_s state3)]
     | Inr state4s \<Rightarrow>
         [Q_Ps (p_low / 10) (st_s state3),
          Q_Ph (p_low / 10)
            (st_h state3 - (st_h state3 - st_h state4s) * (turbine_pct / 100))])))))
   \<and> (IAPWS97 l (Q_Px (p_low / 10) 0) = Inr s1 \<and>
       IAPWS97 l (Q_Ps (p_high / 10) (st_s s1)) = Inr s2s \<and>
       IAPWS97 l (Q_Ph (p_high / 10) (st_h s1 + (st_h s2s - st_h s1) / (pump_pct / 100))) = Inr s2 \<and>
       IAPWS97 l (Q_PT (p_high / 10) (t_high + 273.15)) = Inr s3 \<and>
       IAPWS97 l (Q_Ps (p_low / 10) (st_s s3)) = Inr s4s \<longrightarrow>
       snd (handle_rankine_cycle l req context) =
         [Q_Px (p_low / 10) 0,
          Q_Ps (p_high / 10) (st_s s1),
          Q_Ph (p_high / 10) (st_h s1 + (st_h s2s - st_h s1) / (pump_pct / 100)),
          Q_PT (p_high / 10) (t_high + 273.15),
          Q_Ps (p_low / 10) (st_s s3),
          Q_Ph (p_low / 10) (st_h s3 - (st_h s3 - st_h s4s) * (turbine_pct / 100))])"
proof -
  have tr: "snd (handle_rankine_cycle l req context) =
      snd (rankine_states l p_low p_high t_high (pump_pct / 100) (turbine_pct / 100))"
    using assms(1-5) by (simp add: handle_rankine_trace rankine_try_parsed)
  note full = rankine_states_trace[OF assms(6-10), of l t_high]
  show ?thesis
  proof (intro conjI impI)
    show "snd (handle_rankine_cycle l req context) =
      (case IAPWS97 l (Q_Px (p_low / 10) 0) of Inl e \<Rightarrow> [Q_Px (p_low / 10) 0]
     | Inr state1 \<Rightarrow> Q_Px (p_low / 10) 0 #
    (case IAPWS97 l (Q_Ps (p_high / 10) (st_s state1)) of
       Inl e \<Rightarrow> [Q_Ps (p_high / 10) (st_s state1)]
     | Inr state2s \<Rightarrow> Q_Ps (p_high / 10) (st_s state1) #
    (case IAPWS97 l (Q_Ph (p_high / 10)
                       (st_h state1 + (st_h state2s - st_h state1) / (pump_pct / 100))) of
       Inl e \<Rightarrow> [Q_Ph (p_high / 10)
                   (st_h state1 + (st_h state2s - st_h state1) / (pump_pct / 100))]
     | Inr state2 \<Rightarrow>
         Q_Ph (p_high / 10) (st_h state1 + (st_h state2s - st_h state1) / (pump_pct / 100)) #
    (case IAPWS97 l (Q_PT (p_high / 10) (t_high + 273.15)) of
       Inl e \<Rightarrow> [Q_PT (p_high / 10) (t_high + 273.15)]
     | Inr state3 \<Rightarrow> Q_PT (p_high / 10) (t_high + 273.15) #
    (case IAPWS97 l (Q_Ps (p_low / 10) (st_s state3)) of
       Inl e \<Rightarrow> [Q_Ps (p_low / 10) (st_s state3)]
     | Inr state4s \<Rightarrow>
         [Q_Ps (p_low / 10) (st_s state3),
          Q_Ph (p_low / 10)
            (st_h state3 - (st_h state3 - st_h state4s) * (turbine_pct / 100))])))))"
      unfolding tr by (rule full)
  next
    assume "IAPWS97 l (Q_Px (p_low / 10) 0) = Inr s1 \<and>
       IAPWS97 l (Q_Ps (p_high / 10) (st_s s1)) = Inr s2s \<and>
       IAPWS97 l (Q_Ph (p_high / 10) (st_h s1 + (st_h s2s - st_h s1) / (pump_pct / 100))) = Inr s2 \<and>
       IAPWS97 l (Q_PT (p_high / 10) (t_high + 273.15)) = Inr s3 \<and>
       IAPWS97 l (Q_Ps (p_low / 10) (st_s s3)) = Inr s4s"
    then show "snd (handle_rankine_cycle l req context) =
         [Q_Px (p_low / 10) 0,
          Q_Ps (p_high / 10) (st_s s1),
          Q_Ph (p_high / 10) (st_h s1 + (st_h s2s - st_h s1) / (pump_pct / 100)),
          Q_PT (p_high / 10) (t_high + 273.15),
          Q_Ps (p_low / 10) (st_s s3),
          Q_Ph (p_low / 10) (st_h s3 - (st_h s3 - st_h s4s) * (turbine_pct / 100))]"
      unfolding tr full by simp
  qed
qed

theorem C6_states_in_order_witness:
  "snd (handle_rankine_cycle (rankine_lib None ''Gas'') rankine_req Map.empty) =
     [Q_Px 1 0, Q_Ps 10 1, Q_Ph 10 120, Q_PT 10 600, Q_Ps 1 7, Q_Ph 1 1600]"
  using C6_states_in_order [OF rankine_req_parsed, of None "''Gas''" Map.empty
      "mk_steam 1 300 100 1 (Some 0) ''Two-phase''"
      "mk_steam 10 301 110 1 (Some 0) ''Liquid''"
      "mk_steam 10 302 120 2 None ''Liquid''"
      "mk_steam 10 600 2120 7 (Some 0.97) ''Gas''"
      "mk_steam 1 300 1080 7 (Some 0.8) ''Two-phase''"]
  by (simp add: rankine_lib_calls mk_steam_sel)

subsection \<open>The Rankine cycle: what a successful run reports\<close>

lemma rankine_success_reported:
  assumes "rankine_try l req = (Inr upd, tr)"
  shows "\<exists>state1 state2 state3 state4.
      IAPWS97 l (tr ! 0) = Inr state1 \<and> IAPWS97 l (tr ! 2) = Inr state2 \<and>
      IAPWS97 l (tr ! 3) = Inr state3 \<and> IAPWS97 l (tr ! 5) = Inr state4 \<and>
      fst (handle_rankine_cycle l req context) ''success'' = Some (PBool True) \<and>
      fst (handle_rankine_cycle l req context) ''efficiency'' =
        Some (if st_h state3 - st_h state2 > 0
              then PFloat (py_round (((st_h state3 - st_h state4) - (st_h state2 - st_h state1))
                                       / (st_h state3 - st_h state2) * 100) 2)
              else PInt 0) \<and>
      reported (fst (handle_rankine_cycle l req context)) ''state2'' ''x'' =
        Some (quality_or_na state2) \<and>
      reported (fst (handle_rankine_cycle l req context)) ''state2'' ''phase'' =
        Some (PStr (st_phase state2)) \<and>
      reported (fst (handle_rankine_cycle l req context)) ''state4'' ''x'' =
        Some (quality_or_na state4) \<and>
      reported (fst (handle_rankine_cycle l req context)) ''state4'' ''phase'' =
        Some (PStr (st_phase state4))"
proof -
  from rankine_success_states[OF assms] obtain p_low p_high t_high pump_eff turbine_eff
      state1 state2 state3 state4 where
    e: "IAPWS97 l (tr ! 0) = Inr state1" "IAPWS97 l (tr ! 2) = Inr state2"
       "IAPWS97 l (tr ! 3) = Inr state3" "IAPWS97 l (tr ! 5) = Inr state4" and
    rep: "rankine_report p_low p_high t_high pump_eff turbine_eff state1 state2 state3 state4 =
        (Inr upd, [])"
    by blast
  note f = rankine_report_Inr[OF rep]
  have "fst (handle_rankine_cycle l req context) ''success'' = Some (PBool True)"
    by (rule handle_rankine_success[OF assms f(6)])
  moreover have "fst (handle_rankine_cycle l req context) ''efficiency'' =
        Some (if st_h state3 - st_h state2 > 0
              then PFloat (py_round (((st_h state3 - st_h state4) - (st_h state2 - st_h state1))
                                       / (st_h state3 - st_h state2) * 100) 2)
              else PInt 0)"
    by (rule handle_rankine_success[OF assms f(1)])
  moreover have "reported (fst (handle_rankine_cycle l req context)) ''state2'' ''x'' =
        Some (quality_or_na state2)"
       "reported (fst (handle_rankine_cycle l req context)) ''state2'' ''phase'' =
        Some (PStr (st_phase state2))"
    by (simp_all add: reported_success[OF assms f(2)] state_entry_get)
  moreover have "reported (fst (handle_rankine_cycle l req context)) ''state4'' ''x'' =
        Some (quality_or_na state4)"
       "reported (fst (handle_rankine_cycle l req context)) ''state4'' ''phase'' =
        Some (PStr (st_phase state4))"
    by (simp_all add: reported_success[OF assms f(3)] state_entry_get)
  ultimately show ?thesis using e by blast
qed

lemma rankine_demo_reported:
  "fst (handle_rankine_cycle (rankine_lib x2 ph3) rankine_req Map.empty) ''success'' =
     Some (PBool True)"
  "fst (handle_rankine_cycle (rankine_lib x2 ph3) rankine_req Map.empty) ''efficiency'' =
     Some (PFloat 25)"
  "reported (fst (handle_rankine_cycle (rankine_lib x2 ph3) rankine_req Map.empty))
     ''state2'' ''x'' = Some (quality_or_na (mk_steam 10 302 120 2 x2 ''Liquid''))"
  "reported (fst (handle_rankine_cycle (rankine_lib x2 ph3) rankine_req Map.empty))
     ''state2'' ''phase'' = Some (PStr ''Liquid'')"
proof -
  let ?L = "rankine_lib x2 ph3"
  let ?C = "fst (handle_rankine_cycle ?L rankine_req Map.empty)"
  obtain upd where run: "rankine_try ?L rankine_req =
     (Inr upd, [Q_Px 1 0, Q_Ps 10 1, Q_Ph 10 120, Q_PT 10 600, Q_Ps 1 7, Q_Ph 1 1600])"
    using rankine_run by blast
  from rankine_success_reported[OF run, of Map.empty] obtain state1 state2 state3 state4 where
    e: "IAPWS97 ?L (Q_Px 1 0) = Inr state1" "IAPWS97 ?L (Q_Ph 10 120) = Inr state2"
       "IAPWS97 ?L (Q_PT 10 600) = Inr state3" "IAPWS97 ?L (Q_Ph 1 1600) = Inr state4" and
    ok: "?C ''success'' = Some (PBool True)" and
    eff: "?C ''efficiency'' =
        Some (if st_h state3 - st_h state2 > 0
              then PFloat (py_round (((st_h state3 - st_h state4) - (st_h state2 - st_h state1))
                                       / (st_h state3 - st_h state2) * 100) 2)
              else PInt 0)" and
    x2: "reported ?C ''state2'' ''x'' = Some (quality_or_na state2)" and
    p2: "reported ?C ''state2'' ''phase'' = Some (PStr (st_phase state2))"
    by auto
  have s: "state1 = mk_steam 1 300 100 1 (Some 0) ''Two-phase''"
          "state2 = mk_steam 10 302 120 2 x2 ''Liquid''"
          "state3 = mk_steam 10 600 2120 7 (Some 0.97) ph3"
          "state4 = mk_steam 1 300 1600 8 (Some 0.9) ''Two-phase''"
    using e by (simp_all add: rankine_lib_calls)
  show "?C ''success'' = Some (PBool True)" by (rule ok)
  show "?C ''efficiency'' = Some (PFloat 25)"
    using eff unfolding s mk_steam_sel by (simp add: py_round_values)
  show "reported ?C ''state2'' ''x'' = Some (quality_or_na (mk_steam 10 302 120 2 x2 ''Liquid''))"
    using x2 unfolding s by simp
  show "reported ?C ''state2'' ''phase'' = Some (PStr ''Liquid'')"
    using p2 unfolding s mk_steam_sel by simp
qed

text \<open>
  C10. In every successful Rankine result the phase label reported for State 3 is the
  fixed string Superheated Steam, whatever phase the engine resolved; when that phase is
  not Gas (two-phase, for one) the quality of State 3 is still reported as a number, the
  engine's quality rounded to four decimals.
\<close>

theorem C10_state3_label_fixed:
  assumes "rankine_try l req = (Inr upd, tr)"
  shows "\<exists>state3. IAPWS97 l (tr ! 3) = Inr state3
     \<and> reported (fst (handle_rankine_cycle l req context)) ''state3'' ''phase'' =
         Some (PStr ''Superheated Steam'')
     \<and> (st_phase state3 \<noteq> ''Gas'' \<longrightarrow>
          (\<exists>q. st_x state3 = Some q \<and>
             reported (fst (handle_rankine_cycle l req context)) ''state3'' ''x'' =
               Some (PFloat (py_round q 4))))"
proof -
  from rankine_success_states[OF assms] obtain p_low p_high t_high pump_eff turbine_eff
      state1 state2 state3 state4 where
    e3: "IAPWS97 l (tr ! 3) = Inr state3" and
    rep: "rankine_report p_low p_high t_high pump_eff turbine_eff state1 state2 state3 state4 =
        (Inr upd, [])"
    by blast
  note f = rankine_report_Inr[OF rep]
  have ph: "reported (fst (handle_rankine_cycle l req context)) ''state3'' ''phase'' =
         Some (PStr ''Superheated Steam'')"
    by (simp add: reported_success[OF assms f(4)] state_entry_get)
  have x: "st_phase state3 \<noteq> ''Gas'' \<longrightarrow>
          (\<exists>q. st_x state3 = Some q \<and>
             reported (fst (handle_rankine_cycle l req context)) ''state3'' ''x'' =
               Some (PFloat (py_round q 4)))"
  proof
    assume ng: "st_phase state3 \<noteq> ''Gas''"
    from f(5)[OF ng] obtain q where q: "st_x state3 = Some q" by auto
    show "\<exists>q. st_x state3 = Some q \<and>
             reported (fst (handle_rankine_cycle l req context)) ''state3'' ''x'' =
               Some (PFloat (py_round q 4))"
      using q ng by (simp add: reported_success[OF assms f(4)] state_entry_get)
  qed
  from e3 ph x show ?thesis by blast
qed

theorem C10_state3_label_fixed_witness:
  "reported (fst (handle_rankine_cycle (rankine_lib None ''Two-phase'') rankine_req Map.empty))
     ''state3'' ''phase'' = Some (PStr ''Superheated Steam'')
   \<and> reported (fst (handle_rankine_cycle (rankine_lib None ''Two-phase'') rankine_req Map.empty))
     ''state3'' ''x'' = Some (PFloat 0.97)
   \<and> IAPWS97 (rankine_lib None ''Two-phase'') (Q_PT 10 600) =
       Inr (mk_steam 10 600 2120 7 (Some 0.97) ''Two-phase'')"
proof -
  obtain upd where run: "rankine_try (rankine_lib None ''Two-phase'') rankine_req =
     (Inr upd, [Q_Px 1 0, Q_Ps 10 1, Q_Ph 10 120, Q_PT 10 600, Q_Ps 1 7, Q_Ph 1 1600])"
    using rankine_run by blast
  let ?C = "fst (handle_rankine_cycle (rankine_lib None ''Two-phase'') rankine_req Map.empty)"
  from C10_state3_label_fixed [OF run, of Map.empty] obtain state3 where
    e: "IAPWS97 (rankine_lib None ''Two-phase'') (Q_PT 10 600) = Inr state3" and
    ph: "reported ?C ''state3'' ''phase'' = Some (PStr ''Superheated Steam'')" and
    x: "st_phase state3 \<noteq> ''Gas'' \<longrightarrow>
          (\<exists>q. st_x state3 = Some q \<and> reported ?C ''state3'' ''x'' = Some (PFloat (py_round q 4)))"
    by auto
  have s3: "state3 = mk_steam 10 600 2120 7 (Some (97 / 100)) ''Two-phase''"
    using e by (simp add: rankine_lib_calls)
  have ng: "st_phase state3 \<noteq> ''Gas''"
    unfolding s3 mk_steam_sel by simp
  from x ng obtain q where
    q: "st_x state3 = Some q" and r: "reported ?C ''state3'' ''x'' = Some (PFloat (py_round q 4))"
    by blast
  from q have "97 / 100 = q"
    unfolding s3 mk_steam_sel by (simp only: option.inject)
  with r have "reported ?C ''state3'' ''x'' = Some (PFloat (py_round (97 / 100) 4))"
    by (simp only:)
  then have "reported ?C ''state3'' ''x'' = Some (PFloat 0.97)"
    by (simp add: py_round_values)
  with ph show ?thesis by (simp add: rankine_lib_calls)
qed

text \<open>
  C4 as stated fails: with an engine whose State 2 is single-phase (phase Liquid) and
  carries a quality attribute 0, the run succeeds and the quality of State 2 is reported
  as the number 0, not as N/A.
\<close>

theorem C4_liquid_quality_counterexample:
  "IAPWS97 (rankine_lib (Some 0) ''Gas'') (Q_Ph 10 120) =
     Inr (mk_steam 10 302 120 2 (Some 0) ''Liquid'')
   \<and> fst (handle_rankine_cycle (rankine_lib (Some 0) ''Gas'') rankine_req Map.empty) ''success'' =
       Some (PBool True)
   \<and> reported (fst (handle_rankine_cycle (rankine_lib (Some 0) ''Gas'') rankine_req Map.empty))
       ''state2'' ''phase'' = Some (PStr ''Liquid'')
   \<and> reported (fst (handle_rankine_cycle (rankine_lib (Some 0) ''Gas'') rankine_req Map.empty))
       ''state2'' ''x'' = Some (PFloat 0)
   \<and> PFloat 0 \<noteq> PStr ''N/A''"
  by (simp add: rankine_demo_reported rankine_lib_calls quality_or_na_def mk_steam_sel
        py_round_values)

text \<open>
  C4, amended. In every successful Rankine result the quality of State 2 and of State 4
  is reported as the engine's quality rounded to four decimals when the state object the
  engine returned carries a quality attribute, whatever its phase, and as N/A when it
  carries none. The phase is reported beside it and is not consulted.
\<close>

theorem C4_quality_by_attribute:
  assumes "rankine_try l req = (Inr upd, tr)"
  shows "\<exists>state2 state4.
      IAPWS97 l (tr ! 2) = Inr state2 \<and> IAPWS97 l (tr ! 5) = Inr state4 \<and>
      reported (fst (handle_rankine_cycle l req context)) ''state2'' ''x'' =
        Some (case st_x state2 of Some q \<Rightarrow> PFloat (py_round q 4) | None \<Rightarrow> PStr ''N/A'') \<and>
      reported (fst (handle_rankine_cycle l req context)) ''state2'' ''phase'' =
        Some (PStr (st_phase state2)) \<and>
      reported (fst (handle_rankine_cycle l req context)) ''state4'' ''x'' =
        Some (case st_x state4 of Some q \<Rightarrow> PFloat (py_round q 4) | None \<Rightarrow> PStr ''N/A'') \<and>
      reported (fst (handle_rankine_cycle l req context)) ''state4'' ''phase'' =
        Some (PStr (st_phase state4))"
  using rankine_success_reported[OF assms, of "context"]
  unfolding quality_or_na_def by blast

theorem C4_quality_by_attribute_witness:
  "reported (fst (handle_rankine_cycle (rankine_lib None ''Gas'') rankine_req Map.empty))
     ''state2'' ''x'' = Some (PStr ''N/A'')
   \<and> reported (fst (handle_rankine_cycle (rankine_lib None ''Gas'') rankine_req Map.empty))
     ''state4'' ''x'' = Some (PFloat 0.9)
   \<and> reported (fst (handle_rankine_cycle (rankine_lib None ''Gas'') rankine_req Map.empty))
     ''state4'' ''phase'' = Some (PStr ''Two-phase'')"
proof -
  let ?L = "rankine_lib None ''Gas''"
  let ?C = "fst (handle_rankine_cycle ?L rankine_req Map.empty)"
  obtain upd where run: "rankine_try ?L rankine_req =
     (Inr upd, [Q_Px 1 0, Q_Ps 10 1, Q_Ph 10 120, Q_PT 10 600, Q_Ps 1 7, Q_Ph 1 1600])"
    using rankine_run by blast
  from C4_quality_by_attribute [OF run, of Map.empty] obtain state2 state4 where
    e: "IAPWS97 ?L (Q_Ph 10 120) = Inr state2" "IAPWS97 ?L (Q_Ph 1 1600) = Inr state4" and
    x2: "reported ?C ''state2'' ''x'' =
        Some (case st_x state2 of Some q \<Rightarrow> PFloat (py_round q 4) | None \<Rightarrow> PStr ''N/A'')" and
    x4: "reported ?C ''state4'' ''x'' =
        Some (case st_x state4 of Some q \<Rightarrow> PFloat (py_round q 4) | None \<Rightarrow> PStr ''N/A'')" and
    p4: "reported ?C ''state4'' ''phase'' = Some (PStr (st_phase state4))"
    by auto
  have s: "state2 = mk_steam 10 302 120 2 None ''Liquid''"
          "state4 = mk_steam 1 300 1600 8 (Some (9 / 10)) ''Two-phase''"
    using e by (simp_all add: rankine_lib_calls)
  have "reported ?C ''state2'' ''x'' = Some (PStr ''N/A'')"
    using x2 unfolding s mk_steam_sel by simp
  moreover have "reported ?C ''state4'' ''x'' = Some (PFloat 0.9)"
    using x4 unfolding s mk_steam_sel by (simp add: py_round_values)
  moreover have "reported ?C ''state4'' ''phase'' = Some (PStr ''Two-phase'')"
    using p4 unfolding s mk_steam_sel by simp
  ultimately show ?thesis by simp
qed

text \<open>
  C5 as stated fails in its second half: with h1 = 100, h2 = 120, h3 = 2120, h4 = 1600 the
  heat input is 2000, net work over heat input is 1/4, and the reported efficiency is 25.
\<close>

theorem C5_percent_counterexample:
  "map (IAPWS97 (rankine_lib None ''Gas'')) [Q_Px 1 0, Q_Ph 10 120, Q_PT 10 600, Q_Ph 1 1600] =
     [Inr (mk_steam 1 300 100 1 (Some 0) ''Two-phase''),
      Inr (mk_steam 10 302 120 2 None ''Liquid''),
      Inr (mk_steam 10 600 2120 7 (Some 0.97) ''Gas''),
      Inr (mk_steam 1 300 1600 8 (Some 0.9) ''Two-phase'')]
   \<and> ((2120 - 1600) - (120 - 100)) / (2120 - 120) = (1 / 4 :: real)
   \<and> fst (handle_rankine_cycle (rankine_lib None ''Gas'') rankine_req Map.empty) ''efficiency'' =
       Some (PFloat 25)
   \<and> PFloat 25 \<noteq> PFloat (1 / 4)"
  by (simp add: rankine_demo_reported rankine_lib_calls)

text \<open>
  C5, amended. In every successful Rankine result the reported thermal efficiency is the
  integer 0 when the heat input h3 - h2 is not positive, and otherwise it is net work
  over heat input as a percentage (times 100), rounded to two decimals.
\<close>

theorem C5_efficiency_percent:
  assumes "rankine_try l req = (Inr upd, tr)"
  shows "\<exists>state1 state2 state3 state4.
      IAPWS97 l (tr ! 0) = Inr state1 \<and> IAPWS97 l (tr ! 2) = Inr state2 \<and>
      IAPWS97 l (tr ! 3) = Inr state3 \<and> IAPWS97 l (tr ! 5) = Inr state4 \<and>
      fst (handle_rankine_cycle l req context) ''efficiency'' =
        Some (if st_h state3 - st_h state2 \<le> 0 then PInt 0
              else PFloat (py_round (((st_h state3 - st_h state4) - (st_h state2 - st_h state1))
                                       / (st_h state3 - st_h state2) * 100) 2))"
proof -
  from rankine_success_reported[OF assms, of "context"] obtain state1 state2 state3 state4 where
    e: "IAPWS97 l (tr ! 0) = Inr state1" "IAPWS97 l (tr ! 2) = Inr state2"
       "IAPWS97 l (tr ! 3) = Inr state3" "IAPWS97 l (tr ! 5) = Inr state4" and
    eff: "fst (handle_rankine_cycle l req context) ''efficiency'' =
        Some (if st_h state3 - st_h state2 > 0
              then PFloat (py_round (((st_h state3 - st_h state4) - (st_h state2 - st_h state1))
                                       / (st_h state3 - st_h state2) * 100) 2)
              else PInt 0)"
    by blast
  have "fst (handle_rankine_cycle l req context) ''efficiency'' =
        Some (if st_h state3 - st_h state2 \<le> 0 then PInt 0
              else PFloat (py_round (((st_h state3 - st_h state4) - (st_h state2 - st_h state1))
                                       / (st_h state3 - st_h state2) * 100) 2))"
    unfolding eff by (simp add: not_le)
  with e show ?thesis by blast
qed

theorem C5_efficiency_percent_witness:
  "fst (handle_rankine_cycle (rankine_lib None ''Gas'') rankine_req Map.empty) ''efficiency'' =
     Some (PFloat 25)"
proof -
  let ?L = "rankine_lib None ''Gas''"
  let ?C = "fst (handle_rankine_cycle ?L rankine_req Map.empty)"
  obtain upd where run: "rankine_try ?L rankine_req =
     (Inr upd, [Q_Px 1 0, Q_Ps 10 1, Q_Ph 10 120, Q_PT 10 600, Q_Ps 1 7, Q_Ph 1 1600])"
    using rankine_run by blast
  from C5_efficiency_percent [OF run, of Map.empty] obtain state1 state2 state3 state4 where
    e: "IAPWS97 ?L (Q_Px 1 0) = Inr state1" "IAPWS97 ?L (Q_Ph 10 120) = Inr state2"
       "IAPWS97 ?L (Q_PT 10 600) = Inr state3" "IAPWS97 ?L (Q_Ph 1 1600) = Inr state4" and
    eff: "?C ''efficiency'' =
        Some (if st_h state3 - st_h state2 \<le> 0 then PInt 0
              else PFloat (py_round (((st_h state3 - st_h state4) - (st_h state2 - st_h state1))
                                       / (st_h state3 - st_h state2) * 100) 2))"
    by auto
  have s: "state1 = mk_steam 1 300 100 1 (Some 0) ''Two-phase''"
          "state2 = mk_steam 10 302 120 2 None ''Liquid''"
          "state3 = mk_steam 10 600 2120 7 (Some 0.97) ''Gas''"
          "state4 = mk_steam 1 300 1600 8 (Some 0.9) ''Two-phase''"
    using e by (simp_all add: rankine_lib_calls)
  show ?thesis
    using eff unfolding s mk_steam_sel by (simp add: py_round_values)
qed

subsection \<open>The state point\<close>

lemma intermediate_loop_four:
  assumes "IAPWS97 l (Q_Px p a) = Inr sa" "IAPWS97 l (Q_Px p b) = Inr sb"
    "IAPWS97 l (Q_Px p c) = Inr sc" "IAPWS97 l (Q_Px p d) = Inr sd"
  shows "intermediate_loop l p [a, b, c, d] acc =
     (Inr (acc @ [intermediate_entry a sa, intermediate_entry b sb,
                  intermediate_entry c sc, intermediate_entry d sd]),
      [Q_Px p a, Q_Px p b, Q_Px p c, Q_Px p d])"
  using assms by (simp add: py_bind_def engine_call_def py_return_def)

lemma state_point_first_call:
  assumes "float_field l (POST req ''pressure'') = Inr p_val"
    and "float_field l (POST req ''temperature'') = Inr t_val"
    and "pressure_to_mpa (POST req ''p_unit'') p_val = Some p_mpa"
  shows "\<exists>rest. snd (handle_state_point l req context) =
           Q_PT p_mpa (temperature_to_kelvin (POST req ''t_unit'') t_val) # rest"
  using assms
  by (auto simp: handle_state_point_def state_point_try_def Let_def
      split: sum.splits option.splits prod.splits)

lemma state_point_unbound:
  assumes "float_field l (POST req ''pressure'') = Inr p_val"
    and "float_field l (POST req ''temperature'') = Inr t_val"
    and "pressure_to_mpa (POST req ''p_unit'') p_val = None"
  shows "handle_state_point l req context = (context(''error'' \<mapsto> PStr unexpected_error), [])"
  using assms
  by (simp add: handle_state_point_def state_point_try_def Let_def state_point_error_def
      unexpected_error_def)

lemma state_point_single_phase:
  assumes "float_field l (POST req ''pressure'') = Inr p_val"
    and "float_field l (POST req ''temperature'') = Inr t_val"
    and "pressure_to_mpa (POST req ''p_unit'') p_val = Some p_mpa"
    and "IAPWS97 l (Q_PT p_mpa (temperature_to_kelvin (POST req ''t_unit'') t_val)) = Inr steam"
  shows "st_phase steam = ''Liquid'' \<Longrightarrow>
           snd (handle_state_point l req context) =
             [Q_PT p_mpa (temperature_to_kelvin (POST req ''t_unit'') t_val)] \<and>
           fst (handle_state_point l req context) ''state'' = Some (PStr ''Compressed Liquid'') \<and>
           fst (handle_state_point l req context) ''x'' = Some (PStr ''0'') \<and>
           fst (handle_state_point l req context) ''success'' = Some (PBool True) \<and>
           fst (handle_state_point l req context) ''error'' = context ''error''"
    and "st_phase steam = ''Gas'' \<Longrightarrow>
           snd (handle_state_point l req context) =
             [Q_PT p_mpa (temperature_to_kelvin (POST req ''t_unit'') t_val)] \<and>
           fst (handle_state_point l req context) ''state'' = Some (PStr ''Superheated Steam'') \<and>
           fst (handle_state_point l req context) ''x'' = Some (PStr ''1'') \<and>
           fst (handle_state_point l req context) ''success'' = Some (PBool True) \<and>
           fst (handle_state_point l req context) ''error'' = context ''error''"
  using assms
  by (simp_all add: handle_state_point_def state_point_try_def Let_def map_add_def)

lemma state_point_two_phase:
  assumes "float_field l (POST req ''pressure'') = Inr p_val"
    and "float_field l (POST req ''temperature'') = Inr t_val"
    and "pressure_to_mpa (POST req ''p_unit'') p_val = Some p_mpa"
    and "IAPWS97 l (Q_PT p_mpa (temperature_to_kelvin (POST req ''t_unit'') t_val)) = Inr steam"
    and "st_phase steam = ''Two-phase''" and "st_x steam = Some xq"
    and "IAPWS97 l (Q_Px p_mpa 0.2) = Inr i2" and "IAPWS97 l (Q_Px p_mpa 0.4) = Inr i4"
    and "IAPWS97 l (Q_Px p_mpa 0.6) = Inr i6" and "IAPWS97 l (Q_Px p_mpa 0.8) = Inr i8"
  shows "snd (handle_state_point l req context) =
             [Q_PT p_mpa (temperature_to_kelvin (POST req ''t_unit'') t_val),
              Q_Px p_mpa 0.2, Q_Px p_mpa 0.4, Q_Px p_mpa 0.6, Q_Px p_mpa 0.8] \<and>
           fst (handle_state_point l req context) ''state'' = Some (PStr ''Wet Steam'') \<and>
           fst (handle_state_point l req context) ''x'' = Some (PFloat (py_round xq 4)) \<and>
           fst (handle_state_point l req context) ''intermediate_data'' =
             Some (PList [intermediate_entry 0.2 i2, intermediate_entry 0.4 i4,
                          intermediate_entry 0.6 i6, intermediate_entry 0.8 i8]) \<and>
           fst (handle_state_point l req context) ''success'' = Some (PBool True) \<and>
           fst (handle_state_point l req context) ''error'' = context ''error''"
  using assms
  by (simp add: handle_state_point_def state_point_try_def Let_def map_add_def
      py_bind_def engine_call_def py_return_def)

lemma state_req_parsed:
  "float_field (state_lib xq ph) (POST (state_req pu tu) ''pressure'') = Inr 10"
  "float_field (state_lib xq ph) (POST (state_req pu tu) ''temperature'') = Inr 300"
  by (simp_all add: float_field_def state_lib_def state_req_def table_float_def float_table_def)

lemma state_req_units:
  "POST (state_req pu tu) ''p_unit'' = Some pu"
  "POST (state_req pu tu) ''t_unit'' = Some tu"
  by (simp_all add: state_req_def)

lemma state_lib_calls:
  "IAPWS97 (state_lib xq ph) (Q_PT 1 300) = Inr (mk_steam 1 300 1000 3 xq ph)"
  "IAPWS97 (state_lib xq ph) (Q_Px 1 0.2) = Inr (mk_steam 1 453 1200 3 (Some 0.2) ''Two-phase'')"
  "IAPWS97 (state_lib xq ph) (Q_Px 1 0.4) = Inr (mk_steam 1 453 1600 4 (Some 0.4) ''Two-phase'')"
  "IAPWS97 (state_lib xq ph) (Q_Px 1 0.6) = Inr (mk_steam 1 453 2000 5 (Some 0.6) ''Two-phase'')"
  "IAPWS97 (state_lib xq ph) (Q_Px 1 0.8) = Inr (mk_steam 1 453 2400 6 (Some 0.8) ''Two-phase'')"
  by (simp_all add: state_lib_def table_engine_def state_table_def)

lemma state_demo_call:
  "tu \<noteq> ''c'' \<Longrightarrow>
   IAPWS97 (state_lib xq ph)
     (Q_PT 1 (temperature_to_kelvin (POST (state_req ''bar'' tu) ''t_unit'') 300)) =
   Inr (mk_steam 1 300 1000 3 xq ph)"
  by (simp add: state_req_units temperature_to_kelvin_def state_lib_calls)

lemma state_demo_pressure:
  "pressure_to_mpa (POST (state_req ''bar'' tu) ''p_unit'') 10 = Some 1"
  "pressure_to_mpa (POST (state_req ''psi'' tu) ''p_unit'') 10 = None"
  by (simp_all add: state_req_units pressure_to_mpa_def)

lemma py_round_more:
  "py_round 0.123456 4 = 0.1235" "py_round 0.5 4 = 0.5"
  by (simp_all add: py_round_def round_half_even_def)

text \<open>
  C3 as stated fails for the temperature unit: with pressure in bar and the temperature
  tag f, which is neither c nor k, the attempt succeeds, and the engine is called with
  the temperature value 300 unchanged, as for Kelvin.
\<close>

theorem C3_temperature_default_counterexample:
  "POST (state_req ''bar'' ''f'') ''t_unit'' = Some ''f''
   \<and> snd (handle_state_point (state_lib None ''Gas'') (state_req ''bar'' ''f'') Map.empty) =
       [Q_PT 1 300]
   \<and> fst (handle_state_point (state_lib None ''Gas'') (state_req ''bar'' ''f'') Map.empty)
       ''success'' = Some (PBool True)
   \<and> fst (handle_state_point (state_lib None ''Gas'') (state_req ''bar'' ''f'') Map.empty)
       ''error'' = None"
proof -
  have c: "IAPWS97 (state_lib None ''Gas'')
     (Q_PT 1 (temperature_to_kelvin (POST (state_req ''bar'' ''f'') ''t_unit'') 300)) =
     Inr (mk_steam 1 300 1000 3 None ''Gas'')"
    by (rule state_demo_call) simp
  have k: "temperature_to_kelvin (POST (state_req ''bar'' ''f'') ''t_unit'') 300 = 300"
    by (simp add: state_req_units temperature_to_kelvin_def)
  from state_point_single_phase(2)[OF state_req_parsed state_demo_pressure(1) c, of Map.empty]
  show ?thesis
    by (simp add: mk_steam_sel state_req_units temperature_to_kelvin_def)
qed

text \<open>
  C3, amended. With the two numbers parsed: for every pressure-unit tag outside bar, pa,
  atm (a missing tag included) the pressure conversion assigns nothing, and the attempt
  fails with the generic error message before any engine call; for every temperature-unit
  tag other than c, recognised or not, the value is taken as Kelvin and passed to the
  engine unchanged.
\<close>

theorem C3_unknown_units:
  assumes "float_field l (POST req ''pressure'') = Inr p_val"
    and "float_field l (POST req ''temperature'') = Inr t_val"
  shows "(POST req ''p_unit'' \<notin> {Some ''bar'', Some ''pa'', Some ''atm''} \<longrightarrow>
            pressure_to_mpa (POST req ''p_unit'') p_val = None \<and>
            handle_state_point l req context =
              (context(''error'' \<mapsto> PStr unexpected_error), []))
       \<and> (POST req ''p_unit'' \<in> {Some ''bar'', Some ''pa'', Some ''atm''} \<and>
            POST req ''t_unit'' \<noteq> Some ''c'' \<longrightarrow>
            (\<exists>p_mpa rest. pressure_to_mpa (POST req ''p_unit'') p_val = Some p_mpa \<and>
               snd (handle_state_point l req context) = Q_PT p_mpa t_val # rest))"
proof (intro conjI impI)
  assume u: "POST req ''p_unit'' \<notin> {Some ''bar'', Some ''pa'', Some ''atm''}"
  then show n: "pressure_to_mpa (POST req ''p_unit'') p_val = None"
    by (simp add: pressure_to_mpa_def)
  show "handle_state_point l req context = (context(''error'' \<mapsto> PStr unexpected_error), [])"
    by (rule state_point_unbound[OF assms n])
next
  assume a: "POST req ''p_unit'' \<in> {Some ''bar'', Some ''pa'', Some ''atm''} \<and>
            POST req ''t_unit'' \<noteq> Some ''c''"
  then have "pressure_to_mpa (POST req ''p_unit'') p_val =
      Some (the (pressure_to_mpa (POST req ''p_unit'') p_val))"
    by (auto simp: pressure_to_mpa_def)
  then obtain p_mpa where p: "pressure_to_mpa (POST req ''p_unit'') p_val = Some p_mpa"
    by blast
  from a have k: "temperature_to_kelvin (POST req ''t_unit'') t_val = t_val"
    by (simp add: temperature_to_kelvin_def)
  from state_point_first_call[OF assms p, of "context"] k p
  show "\<exists>p_mpa rest. pressure_to_mpa (POST req ''p_unit'') p_val = Some p_mpa \<and>
               snd (handle_state_point l req context) = Q_PT p_mpa t_val # rest"
    by auto
qed

theorem C3_unknown_units_witness:
  "handle_state_point (state_lib None ''Gas'') (state_req ''psi'' ''k'') Map.empty =
     ([''error'' \<mapsto> PStr unexpected_error], [])
   \<and> (\<exists>rest. snd (handle_state_point (state_lib None ''Gas'') (state_req ''bar'' ''f'') Map.empty) =
         Q_PT 1 300 # rest)"
  using C3_unknown_units [OF state_req_parsed [of None "''Gas''" "''psi''" "''k''"], of Map.empty]
    C3_unknown_units [OF state_req_parsed [of None "''Gas''" "''bar''" "''f''"], of Map.empty]
  by (auto simp: state_req_units pressure_to_mpa_def)

lemma state_demo_two_phase:
  "snd (handle_state_point (state_lib (Some xq) ''Two-phase'') (state_req ''bar'' ''k'') Map.empty) =
     [Q_PT 1 300, Q_Px 1 0.2, Q_Px 1 0.4, Q_Px 1 0.6, Q_Px 1 0.8]"
  "fst (handle_state_point (state_lib (Some xq) ''Two-phase'') (state_req ''bar'' ''k'') Map.empty)
     ''state'' = Some (PStr ''Wet Steam'')"
  "fst (handle_state_point (state_lib (Some xq) ''Two-phase'') (state_req ''bar'' ''k'') Map.empty)
     ''x'' = Some (PFloat (py_round xq 4))"
  "fst (handle_state_point (state_lib (Some xq) ''Two-phase'') (state_req ''bar'' ''k'') Map.empty)
     ''error'' = None"
proof -
  let ?L = "state_lib (Some xq) ''Two-phase''"
  have c: "IAPWS97 ?L
     (Q_PT 1 (temperature_to_kelvin (POST (state_req ''bar'' ''k'') ''t_unit'') 300)) =
     Inr (mk_steam 1 300 1000 3 (Some xq) ''Two-phase'')"
    by (rule state_demo_call) simp
  have k: "temperature_to_kelvin (POST (state_req ''bar'' ''k'') ''t_unit'') 300 = 300"
    by (simp add: state_req_units temperature_to_kelvin_def)
  note r = state_point_two_phase[OF state_req_parsed state_demo_pressure(1) c
      mk_steam_sel(7) mk_steam_sel(6) state_lib_calls(2-5), of Map.empty, unfolded k]
  show "snd (handle_state_point ?L (state_req ''bar'' ''k'') Map.empty) =
     [Q_PT 1 300, Q_Px 1 0.2, Q_Px 1 0.4, Q_Px 1 0.6, Q_Px 1 0.8]"
    using r by blast
  show "fst (handle_state_point ?L (state_req ''bar'' ''k'') Map.empty) ''state'' =
     Some (PStr ''Wet Steam'')"
    using r by blast
  show "fst (handle_state_point ?L (state_req ''bar'' ''k'') Map.empty) ''x'' =
     Some (PFloat (py_round xq 4))"
    using r by blast
  show "fst (handle_state_point ?L (state_req ''bar'' ''k'') Map.empty) ''error'' = None"
    using r by simp
qed

text \<open>
  C7 as stated fails in one detail: for a two-phase state whose engine-reported quality is
  0.123456 the quality in the result is 0.1235, the value rounded to four decimals.
\<close>

theorem C7_quality_rounded_counterexample:
  "IAPWS97 (state_lib (Some 0.123456) ''Two-phase'') (Q_PT 1 300) =
     Inr (mk_steam 1 300 1000 3 (Some 0.123456) ''Two-phase'')
   \<and> fst (handle_state_point (state_lib (Some 0.123456) ''Two-phase'') (state_req ''bar'' ''k'')
          Map.empty) ''state'' = Some (PStr ''Wet Steam'')
   \<and> fst (handle_state_point (state_lib (Some 0.123456) ''Two-phase'') (state_req ''bar'' ''k'')
          Map.empty) ''error'' = None
   \<and> fst (handle_state_point (state_lib (Some 0.123456) ''Two-phase'') (state_req ''bar'' ''k'')
          Map.empty) ''x'' = Some (PFloat 0.1235)
   \<and> PFloat 0.1235 \<noteq> PFloat 0.123456"
proof -
  have "fst (handle_state_point (state_lib (Some 0.123456) ''Two-phase'') (state_req ''bar'' ''k'')
          Map.empty) ''x'' = Some (PFloat (py_round 0.123456 4))"
    by (rule state_demo_two_phase(3))
  then have "fst (handle_state_point (state_lib (Some 0.123456) ''Two-phase'')
      (state_req ''bar'' ''k'') Map.empty) ''x'' = Some (PFloat 0.1235)"
    unfolding py_round_more(1) .
  then show ?thesis
    using state_demo_two_phase(2,4)[of "0.123456"] state_lib_calls(1)[of "Some 0.123456" "''Two-phase''"]
    by simp
qed

text \<open>
  C7, amended. For every state-point evaluation in which the numbers parse, the pressure
  unit is recognised and the engine returns a state: phase Liquid gives the label
  Compressed Liquid with quality '0'; phase Gas gives Superheated Steam with quality '1';
  phase Two-phase, when the state carries a quality x and the four further engine calls
  return, gives Wet Steam with quality x rounded to four decimals, and the four
  intermediate states at qualities 0.2, 0.4, 0.6, 0.8 are sampled at the same pressure,
  in this order. No error is recorded in any of the three cases.
\<close>

theorem C7_state_point_classification:
  assumes "float_field l (POST req ''pressure'') = Inr p_val"
    and "float_field l (POST req ''temperature'') = Inr t_val"
    and "pressure_to_mpa (POST req ''p_unit'') p_val = Some p_mpa"
    and "IAPWS97 l (Q_PT p_mpa (temperature_to_kelvin (POST req ''t_unit'') t_val)) = Inr steam"
  shows "(st_phase steam = ''Liquid'' \<longrightarrow>
           snd (handle_state_point l req context) =
             [Q_PT p_mpa (temperature_to_kelvin (POST req ''t_unit'') t_val)] \<and>
           fst (handle_state_point l req context) ''state'' = Some (PStr ''Compressed Liquid'') \<and>
           fst (handle_state_point l req context) ''x'' = Some (PStr ''0'') \<and>
           fst (handle_state_point l req context) ''success'' = Some (PBool True) \<and>
           fst (handle_state_point l req context) ''error'' = context ''error'')
       \<and> (st_phase steam = ''Gas'' \<longrightarrow>
           snd (handle_state_point l req context) =
             [Q_PT p_mpa (temperature_to_kelvin (POST req ''t_unit'') t_val)] \<and>
           fst (handle_state_point l req context) ''state'' = Some (PStr ''Superheated Steam'') \<and>
           fst (handle_state_point l req context) ''x'' = Some (PStr ''1'') \<and>
           fst (handle_state_point l req context) ''success'' = Some (PBool True) \<and>
           fst (handle_state_point l req context) ''error'' = context ''error'')
       \<and> (st_phase steam = ''Two-phase'' \<and> st_x steam = Some xq \<and>
           IAPWS97 l (Q_Px p_mpa 0.2) = Inr i2 \<and> IAPWS97 l (Q_Px p_mpa 0.4) = Inr i4 \<and>
           IAPWS97 l (Q_Px p_mpa 0.6) = Inr i6 \<and> IAPWS97 l (Q_Px p_mpa 0.8) = Inr i8 \<longrightarrow>
           snd (handle_state_point l req context) =
             [Q_PT p_mpa (temperature_to_kelvin (POST req ''t_unit'') t_val),
              Q_Px p_mpa 0.2, Q_Px p_mpa 0.4, Q_Px p_mpa 0.6, Q_Px p_mpa 0.8] \<and>
           fst (handle_state_point l req context) ''state'' = Some (PStr ''Wet Steam'') \<and>
           fst (handle_state_point l req context) ''x'' = Some (PFloat (py_round xq 4)) \<and>
           fst (handle_state_point l req context) ''intermediate_data'' =
             Some (PList [intermediate_entry 0.2 i2, intermediate_entry 0.4 i4,
                          intermediate_entry 0.6 i6, intermediate_entry 0.8 i8]) \<and>
           fst (handle_state_point l req context) ''success'' = Some (PBool True) \<and>
           fst (handle_state_point l req context) ''error'' = context ''error'')"
proof -
  note single = state_point_single_phase[OF assms, of "context"]
  note wet = state_point_two_phase[OF assms, of xq i2 i4 i6 i8 "context"]
  show ?thesis
    apply (intro conjI)
      apply (rule impI, rule single(1), assumption)
     apply (rule impI, rule single(2), assumption)
    apply (rule impI, elim conjE, rule wet, assumption+)
    done
qed

theorem C7_state_point_classification_witness:
  "fst (handle_state_point (state_lib None ''Liquid'') (state_req ''bar'' ''k'') Map.empty)
     ''state'' = Some (PStr ''Compressed Liquid'')
   \<and> fst (handle_state_point (state_lib None ''Liquid'') (state_req ''bar'' ''k'') Map.empty)
     ''x'' = Some (PStr ''0'')
   \<and> fst (handle_state_point (state_lib (Some 0.5) ''Two-phase'') (state_req ''bar'' ''k'') Map.empty)
     ''x'' = Some (PFloat 0.5)
   \<and> snd (handle_state_point (state_lib (Some 0.5) ''Two-phase'') (state_req ''bar'' ''k'') Map.empty) =
     [Q_PT 1 300, Q_Px 1 0.2, Q_Px 1 0.4, Q_Px 1 0.6, Q_Px 1 0.8]"
proof -
  have k: "temperature_to_kelvin (POST (state_req ''bar'' ''k'') ''t_unit'') 300 = 300"
    by (simp add: state_req_units temperature_to_kelvin_def)
  have c1: "IAPWS97 (state_lib None ''Liquid'')
     (Q_PT 1 (temperature_to_kelvin (POST (state_req ''bar'' ''k'') ''t_unit'') 300)) =
     Inr (mk_steam 1 300 1000 3 None ''Liquid'')"
    by (rule state_demo_call) simp
  have c2: "IAPWS97 (state_lib (Some 0.5) ''Two-phase'')
     (Q_PT 1 (temperature_to_kelvin (POST (state_req ''bar'' ''k'') ''t_unit'') 300)) =
     Inr (mk_steam 1 300 1000 3 (Some 0.5) ''Two-phase'')"
    by (rule state_demo_call) simp
  note liquid = C7_state_point_classification [OF state_req_parsed state_demo_pressure(1) c1,
      of Map.empty, unfolded k mk_steam_sel]
  note wet = C7_state_point_classification [OF state_req_parsed state_demo_pressure(1) c2,
      where xq = "0.5"
        and ?i2.0 = "mk_steam 1 453 1200 3 (Some 0.2) ''Two-phase''"
        and ?i4.0 = "mk_steam 1 453 1600 4 (Some 0.4) ''Two-phase''"
        and ?i6.0 = "mk_steam 1 453 2000 5 (Some 0.6) ''Two-phase''"
        and ?i8.0 = "mk_steam 1 453 2400 6 (Some 0.8) ''Two-phase''",
      of Map.empty, unfolded k mk_steam_sel]
  have w: "fst (handle_state_point (state_lib (Some 0.5) ''Two-phase'') (state_req ''bar'' ''k'')
             Map.empty) ''x'' = Some (PFloat (py_round 0.5 4))
     \<and> snd (handle_state_point (state_lib (Some 0.5) ''Two-phase'') (state_req ''bar'' ''k'')
             Map.empty) = [Q_PT 1 300, Q_Px 1 0.2, Q_Px 1 0.4, Q_Px 1 0.6, Q_Px 1 0.8]"
    using wet state_lib_calls(2-5)[of "Some 0.5" "''Two-phase''"] by simp
  show ?thesis
    using liquid w unfolding py_round_more(2) by simp
qed

subsection \<open>The view and the query log\<close>

lemma steam_calculator_rankine:
  assumes "http_method req = ''POST''" and "POST req ''mode'' = Some ''rankine_cycle''"
  shows "\<exists>c. fst (fst (steam_calculator l req db)) = fst (handle_rankine_cycle l req c)"
proof -
  obtain a b t0 where g: "generate_saturation_dome (IAPWS97 l) = ((a, b), t0)"
    by (metis prod.exhaust)
  have "fst (fst (steam_calculator l req db)) =
      fst (handle_rankine_cycle l req
        [''liquid_line'' \<mapsto> PJson (PList a), ''vapor_line'' \<mapsto> PJson (PList b),
         ''active_mode'' \<mapsto> PStr ''rankine''])"
    using assms by (simp add: steam_calculator_def Let_def g split: prod.splits)
  then show ?thesis by blast
qed

lemma rankine_demo_success:
  "fst (handle_rankine_cycle (rankine_lib x2 ph3) rankine_req c) ''success'' = Some (PBool True)"
proof -
  obtain upd where run: "rankine_try (rankine_lib x2 ph3) rankine_req =
     (Inr upd, [Q_Px 1 0, Q_Ps 10 1, Q_Ph 10 120, Q_PT 10 600, Q_Ps 1 7, Q_Ph 1 1600])"
    using rankine_run by blast
  from rankine_success_reported[OF run, of c] show ?thesis by blast
qed

text \<open>
  C1 as stated fails: a successful Rankine request leaves the query log as it was, here
  empty, so the attempt produced no audit record.
\<close>

theorem C1_no_record_counterexample:
  "http_method rankine_req = ''POST''
   \<and> fst (fst (steam_calculator (rankine_lib None ''Gas'') rankine_req [])) ''success'' =
       Some (PBool True)
   \<and> snd (steam_calculator (rankine_lib None ''Gas'') rankine_req []) = []"
proof -
  have m: "http_method rankine_req = ''POST''" "POST rankine_req ''mode'' = Some ''rankine_cycle''"
    by (simp_all add: rankine_req_def)
  from steam_calculator_rankine[OF m, of "rankine_lib None ''Gas''" "[]"] obtain c where
    "fst (fst (steam_calculator (rankine_lib None ''Gas'') rankine_req [])) =
       fst (handle_rankine_cycle (rankine_lib None ''Gas'') rankine_req c)"
    by auto
  then have "fst (fst (steam_calculator (rankine_lib None ''Gas'') rankine_req [])) ''success'' =
       Some (PBool True)"
    by (simp add: rankine_demo_success)
  moreover have "snd (steam_calculator (rankine_lib None ''Gas'') rankine_req []) = []"
    by (simp add: steam_calculator_def Let_def split: prod.splits)
  ultimately show ?thesis using m by simp
qed

text \<open>
  C1, amended. No computation attempt, state point or Rankine cycle, successful or
  failed, produces an audit record: the view returns the query log exactly as it received
  it, so this subsystem creates, mutates and deletes no log record.
\<close>

theorem C1_log_untouched:
  "snd (steam_calculator l req db) = db"
  by (simp add: steam_calculator_def Let_def split: prod.splits)

theorem C1_log_untouched_witness:
  "snd (steam_calculator (rankine_lib None ''Gas'') bad_pressure_req
          [\<lparr>pressure = 10, temperature = 450, timestamp = 0, is_valid = True\<rparr>]) =
     [\<lparr>pressure = 10, temperature = 450, timestamp = 0, is_valid = True\<rparr>]"
  using C1_log_untouched [of "rankine_lib None ''Gas''" bad_pressure_req
      "[\<lparr>pressure = 10, temperature = 450, timestamp = 0, is_valid = True\<rparr>]"]
  by simp

end
